theory Spec2Isabelle
  imports Complex_Main
begin

section \<open>Python values, exceptions\<close>

text \<open>
  Decoded JSON, as \<open>request.json\<close> and the Slack block structures hold it. Strings are
  byte strings: a character beyond ASCII is its UTF-8 bytes.
\<close>

datatype json =
    JNull
  | JBool bool
  | JNum int
  | JStr string
  | JArr "json list"
  | JObj "(string \<times> json) list"

text \<open>
  The exceptions the modelled code can meet, each carrying the text \<open>str(e)\<close> shows.
  \<open>SlackApiError\<close> stands for whatever the message-posting client raises.
\<close>

datatype error =
    ValueError string
  | AttributeError string
  | TypeError string
  | OverflowError string
  | BadRequest string
  | Conflict string
  | SlackApiError string

fun str_of_error :: "error \<Rightarrow> string" where
  "str_of_error (ValueError m) = m"
| "str_of_error (AttributeError m) = m"
| "str_of_error (TypeError m) = m"
| "str_of_error (OverflowError m) = m"
| "str_of_error (BadRequest m) = m"
| "str_of_error (Conflict m) = m"
| "str_of_error (SlackApiError m) = m"

section \<open>Distribution engine (src/daily_digest/distributor.py)\<close>

subsection \<open>Data\<close>

text \<open>The dict a Slack call returns: \<open>result.get("ok")\<close>, \<open>result.get("ts")\<close>,
  \<open>result.get("error")\<close>; \<open>None\<close> is an absent key.\<close>

record slack_result =
  res_ok :: "bool option"
  res_ts :: "string option"
  res_error :: "string option"

text \<open>\<open>DigestItemMessage\<close> (formatter.py): the fields the distributor reads.\<close>

record digest_item_message =
  digest_item_id :: string
  team :: string
  item_type :: string
  title :: string
  msg_text :: string
  blocks :: json
  confidence :: real

text \<open>\<open>DigestItem\<close> (feedback_store.py), as \<open>_store_digest_item\<close> constructs it.\<close>

record digest_item =
  di_digest_item_id :: string
  di_run_id :: string
  di_date :: string
  di_team :: string
  di_item_type :: string
  di_title :: string
  di_summary :: string
  di_confidence :: real
  slack_message_ts :: string
  slack_channel_id :: string

text \<open>\<open>TeamAnalysis\<close>: the distributor reads \<open>team_name\<close> only; the rest is the
  formatter's business.\<close>

record 'a team_analysis =
  team_name :: string
  analysis :: 'a

record digest_config =
  digest_channel :: string
  channels :: "string \<Rightarrow> string option"
  leadership_users :: "string list"

text \<open>\<open>DigestFormatter\<close>: its methods format and do nothing else; they are parameters
  of the distributor. \<open>format_digest_items\<close> returns the high, low and excluded buckets.\<close>

record ('o, 'a) digest_formatter =
  format_header_message :: "'o \<Rightarrow> (string \<times> 'a team_analysis) list \<Rightarrow> string \<times> json"
  format_digest_items ::
    "(string \<times> 'a team_analysis) list \<Rightarrow> string \<Rightarrow> (string \<Rightarrow> real option) option
      \<Rightarrow> digest_item_message list \<times> digest_item_message list \<times> digest_item_message list"
  format_main_digest :: "'o \<Rightarrow> (string \<times> 'a team_analysis) list \<Rightarrow> string \<times> json"
  format_team_details :: "'a team_analysis \<Rightarrow> string"
  format_leadership_dm :: "'o \<Rightarrow> (string \<times> 'a team_analysis) list \<Rightarrow> string"

subsection \<open>The outside world\<close>

text \<open>
  A call of the message-posting client, \<open>post_message(channel, text, blocks)\<close> or
  \<open>send_dm(user_id, text)\<close>. The client is an external collaborator: its answer to a call
  is any function of the calls made so far and the call itself, and it either raises or
  returns a result dict.
\<close>

datatype call =
    PostMessage string string "json option"
  | SendDm string string

type_synonym slack_client = "call list \<Rightarrow> call \<Rightarrow> error + slack_result"

text \<open>Which statement of the distributor made a call.\<close>

datatype origin = Header | HighItem | Divider | LowItem | TeamDetails | LeadershipDm

text \<open>
  The world a run acts on: the calls made on the client, in order, each with its origin,
  and the \<open>DigestItem\<close> records handed to \<open>FeedbackStore.store_digest_item\<close>, in order.
\<close>

record world =
  posted :: "(origin \<times> call) list"
  stored :: "digest_item list"

text \<open>
  What a run reads from its environment: the module flag \<open>FEEDBACK_AVAILABLE\<close> and the
  clock, \<open>datetime.now()\<close> formatted as \<open>%Y-%m-%d\<close> and as \<open>%Y%m%d_%H%M%S\<close>.
\<close>

record runtime =
  FEEDBACK_AVAILABLE :: bool
  now_date :: string
  now_stamp :: string

text \<open>\<open>DigestDistributor\<close>; \<open>feedback_store\<close> tells whether a store was given
  (\<open>False\<close> is \<open>None\<close>), the store's contents being in the world.\<close>

record ('o, 'a) digest_distributor =
  client :: slack_client
  config :: digest_config
  formatter :: "('o, 'a) digest_formatter"
  feedback_store :: bool

subsection \<open>Results\<close>

text \<open>An entry of \<open>results["items"]\<close>.\<close>

record item_post =
  ip_digest_item_id :: string
  ip_message_ts :: "string option"
  ip_ok :: "bool option"
  ip_confidence :: real
  ip_section :: string

text \<open>The dict \<open>_post_main_digest_with_items\<close> returns.\<close>

record main_results =
  mr_header :: "slack_result option"
  mr_items :: "item_post list"
  mr_items_stored :: nat

text \<open>The dict \<open>distribute\<close> returns; \<open>team_posts\<close> is a dict in insertion order.\<close>

record distribution_result =
  run_id :: string
  main_post :: "slack_result option"
  item_posts :: "item_post list"
  team_posts :: "(string \<times> slack_result) list"
  dms :: "(string \<times> slack_result) list"
  errors :: "string list"
  items_stored :: nat

text \<open>The dict \<open>preview\<close> returns.\<close>

record preview_result =
  pv_run_id :: string
  pv_main_post :: "string \<times> json"
  pv_header :: "string \<times> json"
  high_confidence_items :: "(string \<times> string \<times> real) list"
  low_confidence_items :: "(string \<times> string \<times> real) list"
  excluded_items :: "digest_item_message list"
  team_details :: "(string \<times> string) list"
  leadership_dm :: string

subsection \<open>Operations\<close>

text \<open>\<open>d[k] = v\<close> on a dict kept in insertion order.\<close>

fun dict_set :: "('k \<times> 'v) list \<Rightarrow> 'k \<Rightarrow> 'v \<Rightarrow> ('k \<times> 'v) list" where
  "dict_set [] k v = [(k, v)]"
| "dict_set ((k', v') # kvs) k v =
     (if k' = k then (k, v) # kvs else (k', v') # dict_set kvs k v)"

text \<open>\<open>await self.client.post_message(...)\<close>: the call is recorded, the client answers.\<close>

definition post_message ::
  "('o, 'a) digest_distributor \<Rightarrow> origin \<Rightarrow> string \<Rightarrow> string \<Rightarrow> json option \<Rightarrow> world
    \<Rightarrow> (error + slack_result) \<times> world" where
  "post_message d og channel txt blks w =
     (client d (map snd (posted w)) (PostMessage channel txt blks),
      w\<lparr>posted := posted w @ [(og, PostMessage channel txt blks)]\<rparr>)"

text \<open>\<open>await self.client.send_dm(user_id=..., text=...)\<close>.\<close>

definition send_dm ::
  "('o, 'a) digest_distributor \<Rightarrow> string \<Rightarrow> string \<Rightarrow> world \<Rightarrow> (error + slack_result) \<times> world" where
  "send_dm d user_id txt w =
     (client d (map snd (posted w)) (SendDm user_id txt),
      w\<lparr>posted := posted w @ [(LeadershipDm, SendDm user_id txt)]\<rparr>)"

text \<open>\<open>self.feedback_store.store_digest_item(digest_item)\<close>: the record reaches the store.\<close>

definition store_digest_item :: "digest_item \<Rightarrow> world \<Rightarrow> world" where
  "store_digest_item di w = w\<lparr>stored := stored w @ [di]\<rparr>"

text \<open>\<open>DigestDistributor._store_digest_item\<close>.\<close>

definition distributor_store_digest_item ::
  "('o, 'a) digest_distributor \<Rightarrow> runtime \<Rightarrow> digest_item_message \<Rightarrow> string \<Rightarrow> string \<Rightarrow> string
    \<Rightarrow> world \<Rightarrow> world" where
  "distributor_store_digest_item d rt item_msg message_ts channel_id rid w =
     (if \<not> feedback_store d \<or> \<not> FEEDBACK_AVAILABLE rt then w
      else store_digest_item
             \<lparr>di_digest_item_id = digest_item_id item_msg,
              di_run_id = rid,
              di_date = now_date rt,
              di_team = team item_msg,
              di_item_type = item_type item_msg,
              di_title = title item_msg,
              di_summary = msg_text item_msg,
              di_confidence = confidence item_msg,
              slack_message_ts = message_ts,
              slack_channel_id = channel_id\<rparr> w)"

text \<open>\<open>result.get("ts", "")\<close>.\<close>

definition ts_or_empty :: "slack_result \<Rightarrow> string" where
  "ts_or_empty result = (case res_ts result of Some t \<Rightarrow> t | None \<Rightarrow> [])"

text \<open>
  The loop over \<open>high_conf\<close> (step 3). The body is a \<open>try\<close>: when the post raises, the
  handler logs a warning and the loop goes on with \<open>results\<close> as it was.
\<close>

fun post_high_conf ::
  "('o, 'a) digest_distributor \<Rightarrow> runtime \<Rightarrow> string \<Rightarrow> string \<Rightarrow> digest_item_message list
    \<Rightarrow> main_results \<times> world \<Rightarrow> main_results \<times> world" where
  "post_high_conf d rt channel rid [] rw = rw"
| "post_high_conf d rt channel rid (item_msg # rest) (results, w) =
     post_high_conf d rt channel rid rest
       (case post_message d HighItem channel (msg_text item_msg) (Some (blocks item_msg)) w of
          (Inl e, w1) \<Rightarrow> (results, w1)
        | (Inr result, w1) \<Rightarrow>
            (let (results1, w2) =
                   (if feedback_store d \<and> res_ok result = Some True
                    then (results\<lparr>mr_items_stored := mr_items_stored results + 1\<rparr>,
                          distributor_store_digest_item d rt item_msg (ts_or_empty result)
                            channel rid w1)
                    else (results, w1))
             in (results1\<lparr>mr_items := mr_items results1 @
                   [\<lparr>ip_digest_item_id = digest_item_id item_msg,
                     ip_message_ts = res_ts result,
                     ip_ok = res_ok result,
                     ip_confidence = confidence item_msg,
                     ip_section = ''main''\<rparr>]\<rparr>, w2)))"

text \<open>The loop over \<open>low_conf\<close> (step 4), written out a second time in the source.\<close>

fun post_low_conf ::
  "('o, 'a) digest_distributor \<Rightarrow> runtime \<Rightarrow> string \<Rightarrow> string \<Rightarrow> digest_item_message list
    \<Rightarrow> main_results \<times> world \<Rightarrow> main_results \<times> world" where
  "post_low_conf d rt channel rid [] rw = rw"
| "post_low_conf d rt channel rid (item_msg # rest) (results, w) =
     post_low_conf d rt channel rid rest
       (case post_message d LowItem channel (msg_text item_msg) (Some (blocks item_msg)) w of
          (Inl e, w1) \<Rightarrow> (results, w1)
        | (Inr result, w1) \<Rightarrow>
            (let (results1, w2) =
                   (if feedback_store d \<and> res_ok result = Some True
                    then (results\<lparr>mr_items_stored := mr_items_stored results + 1\<rparr>,
                          distributor_store_digest_item d rt item_msg (ts_or_empty result)
                            channel rid w1)
                    else (results, w1))
             in (results1\<lparr>mr_items := mr_items results1 @
                   [\<lparr>ip_digest_item_id = digest_item_id item_msg,
                     ip_message_ts = res_ts result,
                     ip_ok = res_ok result,
                     ip_confidence = confidence item_msg,
                     ip_section = ''fyi''\<rparr>]\<rparr>, w2)))"

text \<open>The section header of step 4; the clipboard emoji is its four UTF-8 bytes.\<close>

definition clipboard :: string where
  "clipboard = [CHR 0xF0, CHR 0x9F, CHR 0x93, CHR 0x8B]"

definition divider_text :: string where
  "divider_text = clipboard @ '' Lower Confidence / FYI''"

definition divider_blocks :: json where
  "divider_blocks =
     JArr [JObj [(''type'', JStr ''section''),
                 (''text'', JObj [(''type'', JStr ''mrkdwn''),
                    (''text'', JStr (''*'' @ clipboard @ '' Lower Confidence / FYI*'' @ [CHR 0x0A]
                       @ ''_These items may need verification:_''))])]]"

text \<open>
  \<open>DigestDistributor._post_main_digest_with_items\<close>. The header post and the divider
  post stand outside every \<open>try\<close> of the method: when one raises, the method raises.
\<close>

definition post_main_digest_with_items ::
  "('o, 'a) digest_distributor \<Rightarrow> runtime \<Rightarrow> 'o \<Rightarrow> (string \<times> 'a team_analysis) list \<Rightarrow> string
    \<Rightarrow> (string \<Rightarrow> real option) option \<Rightarrow> world \<Rightarrow> (error + main_results) \<times> world" where
  "post_main_digest_with_items d rt output team_analyses rid item_confidences w =
     (let channel = digest_channel (config d);
          results = \<lparr>mr_header = None, mr_items = [], mr_items_stored = 0\<rparr>;
          (header_text, header_blocks) =
             format_header_message (formatter d) output team_analyses
      in case post_message d Header channel header_text (Some header_blocks) w of
           (Inl e, w1) \<Rightarrow> (Inl e, w1)
         | (Inr header_result, w1) \<Rightarrow>
             (let results1 = results\<lparr>mr_header := Some header_result\<rparr>;
                  (high_conf, low_conf, excluded) =
                     format_digest_items (formatter d) team_analyses rid item_confidences;
                  (results2, w2) = post_high_conf d rt channel rid high_conf (results1, w1)
              in if low_conf \<noteq> [] then
                   (case post_message d Divider channel divider_text (Some divider_blocks) w2 of
                      (Inl e, w3) \<Rightarrow> (Inl e, w3)
                    | (Inr divider_result, w3) \<Rightarrow>
                        (let (results3, w4) =
                               post_low_conf d rt channel rid low_conf (results2, w3)
                         in (Inr results3, w4)))
                 else (Inr results2, w2)))"

text \<open>\<open>DigestDistributor._post_team_details\<close>; \<open>if not channel_id\<close> holds for a missing
  and for an empty entry.\<close>

definition post_team_details ::
  "('o, 'a) digest_distributor \<Rightarrow> 'a team_analysis \<Rightarrow> world \<Rightarrow> (error + slack_result) \<times> world" where
  "post_team_details d ta w =
     (case channels (config d) (team_name ta) of
        None \<Rightarrow>
          (Inr \<lparr>res_ok = Some False, res_ts = None, res_error = Some ''no_channel_configured''\<rparr>, w)
      | Some channel_id \<Rightarrow>
          if channel_id = [] then
            (Inr \<lparr>res_ok = Some False, res_ts = None, res_error = Some ''no_channel_configured''\<rparr>, w)
          else post_message d TeamDetails channel_id (format_team_details (formatter d) ta) None w)"

text \<open>\<open>DigestDistributor._send_leadership_dm\<close>.\<close>

definition send_leadership_dm ::
  "('o, 'a) digest_distributor \<Rightarrow> 'o \<Rightarrow> (string \<times> 'a team_analysis) list \<Rightarrow> string \<Rightarrow> world
    \<Rightarrow> (error + slack_result) \<times> world" where
  "send_leadership_dm d output team_analyses user_id w =
     send_dm d user_id (format_leadership_dm (formatter d) output team_analyses) w"

text \<open>Step 2 of \<open>distribute\<close>: the loop over \<open>team_analyses.items()\<close>, each turn a \<open>try\<close>.\<close>

fun post_teams ::
  "('o, 'a) digest_distributor \<Rightarrow> (string \<times> 'a team_analysis) list
    \<Rightarrow> distribution_result \<times> world \<Rightarrow> distribution_result \<times> world" where
  "post_teams d [] rw = rw"
| "post_teams d ((tname, ta) # rest) (results, w) =
     post_teams d rest
       (case post_team_details d ta w of
          (Inr team_result, w1) \<Rightarrow>
            (results\<lparr>team_posts := dict_set (team_posts results) tname team_result\<rparr>, w1)
        | (Inl e, w1) \<Rightarrow>
            (results\<lparr>errors := errors results @
               [''Failed to post to '' @ tname @ '': '' @ str_of_error e]\<rparr>, w1))"

text \<open>Step 3 of \<open>distribute\<close>: the loop over \<open>self.config.leadership_users\<close>.\<close>

fun send_dms ::
  "('o, 'a) digest_distributor \<Rightarrow> 'o \<Rightarrow> (string \<times> 'a team_analysis) list \<Rightarrow> string list
    \<Rightarrow> distribution_result \<times> world \<Rightarrow> distribution_result \<times> world" where
  "send_dms d output team_analyses [] rw = rw"
| "send_dms d output team_analyses (user_id # rest) (results, w) =
     send_dms d output team_analyses rest
       (case send_leadership_dm d output team_analyses user_id w of
          (Inr dm_result, w1) \<Rightarrow> (results\<lparr>dms := dms results @ [(user_id, dm_result)]\<rparr>, w1)
        | (Inl e, w1) \<Rightarrow>
            (results\<lparr>errors := errors results @
               [''Failed to DM '' @ user_id @ '': '' @ str_of_error e]\<rparr>, w1))"

text \<open>\<open>run_id or datetime.now().strftime("%Y%m%d_%H%M%S")\<close>: \<open>None\<close> and the empty string
  are both false.\<close>

definition effective_run_id :: "runtime \<Rightarrow> string option \<Rightarrow> string" where
  "effective_run_id rt rid_opt =
     (case rid_opt of None \<Rightarrow> now_stamp rt | Some r \<Rightarrow> if r = [] then now_stamp rt else r)"

text \<open>
  \<open>DigestDistributor.distribute\<close>. The result is a sum as for every other method, so that
  "does not raise" is a statement about the value and not about the type.
\<close>

definition distribute ::
  "('o, 'a) digest_distributor \<Rightarrow> runtime \<Rightarrow> 'o \<Rightarrow> (string \<times> 'a team_analysis) list
    \<Rightarrow> string option \<Rightarrow> (string \<Rightarrow> real option) option \<Rightarrow> world
    \<Rightarrow> (error + distribution_result) \<times> world" where
  "distribute d rt output team_analyses rid_opt item_confidences w =
     (let rid = effective_run_id rt rid_opt;
          results = \<lparr>run_id = rid, main_post = None, item_posts = [], team_posts = [],
                     dms = [], errors = [], items_stored = 0\<rparr>;
          (results1, w1) =
             (case post_main_digest_with_items d rt output team_analyses rid item_confidences w of
                (Inr main_res, w') \<Rightarrow>
                  (results\<lparr>main_post := mr_header main_res,
                           item_posts := mr_items main_res,
                           items_stored := mr_items_stored main_res\<rparr>, w')
              | (Inl e, w') \<Rightarrow>
                  (results\<lparr>errors := errors results @
                     [''Failed to post main digest: '' @ str_of_error e]\<rparr>, w'));
          (results2, w2) = post_teams d team_analyses (results1, w1);
          (results3, w3) =
             send_dms d output team_analyses (leadership_users (config d)) (results2, w2)
      in (Inr results3, w3))"

text \<open>\<open>DigestDistributor.preview\<close>: formatter calls only.\<close>

definition preview ::
  "('o, 'a) digest_distributor \<Rightarrow> runtime \<Rightarrow> 'o \<Rightarrow> (string \<times> 'a team_analysis) list
    \<Rightarrow> string option \<Rightarrow> (string \<Rightarrow> real option) option \<Rightarrow> world
    \<Rightarrow> (error + preview_result) \<times> world" where
  "preview d rt output team_analyses rid_opt item_confidences w =
     (let rid = effective_run_id rt rid_opt;
          hdr = format_header_message (formatter d) output team_analyses;
          (high_conf, low_conf, excluded) =
             format_digest_items (formatter d) team_analyses rid item_confidences;
          legacy = format_main_digest (formatter d) output team_analyses;
          details = fold (\<lambda>(tname, ta) acc.
                       dict_set acc tname (format_team_details (formatter d) ta))
                      team_analyses [];
          dm = format_leadership_dm (formatter d) output team_analyses
      in (Inr \<lparr>pv_run_id = rid,
               pv_main_post = legacy,
               pv_header = hdr,
               high_confidence_items =
                 map (\<lambda>m. (digest_item_id m, msg_text m, confidence m)) high_conf,
               low_confidence_items =
                 map (\<lambda>m. (digest_item_id m, msg_text m, confidence m)) low_conf,
               excluded_items = excluded,
               team_details = details,
               leadership_dm = dm\<rparr>, w))"

section \<open>Feedback listener (scripts/feedback_listener.py)\<close>

subsection \<open>Python built-ins the verifier uses\<close>

text \<open>The characters of Latin-1 that \<open>int()\<close> skips at both ends of its argument.\<close>

definition py_isspace :: "char \<Rightarrow> bool" where
  "py_isspace c =
     (c \<in> set [CHR 0x09, CHR 0x0A, CHR 0x0B, CHR 0x0C, CHR 0x0D, CHR 0x1C, CHR 0x1D,
                CHR 0x1E, CHR 0x1F, CHR 0x20, CHR 0x85, CHR 0xA0])"

definition py_strip :: "string \<Rightarrow> string" where
  "py_strip s = rev (dropWhile py_isspace (rev (dropWhile py_isspace s)))"

definition is_digit :: "char \<Rightarrow> bool" where
  "is_digit c = (48 \<le> (of_char c :: nat) \<and> (of_char c :: nat) \<le> 57)"

definition digit_val :: "char \<Rightarrow> int" where
  "digit_val c = int (of_char c) - 48"

text \<open>Decimal digits, a single underscore allowed between two of them.\<close>

fun digits_acc :: "int \<Rightarrow> string \<Rightarrow> int option" where
  "digits_acc acc [] = Some acc"
| "digits_acc acc (c # cs) =
     (if is_digit c then digits_acc (10 * acc + digit_val c) cs
      else if c = CHR ''_'' then
        (case cs of
           [] \<Rightarrow> None
         | c' # cs' \<Rightarrow> if is_digit c' then digits_acc acc cs else None)
      else None)"

definition py_digits :: "string \<Rightarrow> int option" where
  "py_digits s =
     (case s of [] \<Rightarrow> None | c # cs \<Rightarrow> if is_digit c then digits_acc 0 s else None)"

text \<open>\<open>int(s)\<close> on a string, base 10; \<open>None\<close> is the \<open>ValueError\<close>.\<close>

definition py_int :: "string \<Rightarrow> int option" where
  "py_int s =
     (case py_strip s of
        [] \<Rightarrow> None
      | c # cs \<Rightarrow>
          if c = CHR ''-'' then map_option uminus (py_digits cs)
          else if c = CHR ''+'' then py_digits cs
          else py_digits (c # cs))"

text \<open>
  \<open>time.time() - int(timestamp)\<close> converts the integer to a float; an integer that rounds
  beyond the largest double raises \<open>OverflowError\<close>. The clock reading and the difference
  are taken as exact real numbers otherwise.
\<close>

definition float_overflows :: "int \<Rightarrow> bool" where
  "float_overflows n = (\<bar>n\<bar> \<ge> 2 ^ 1024 - 2 ^ 970)"

text \<open>\<open>.hexdigest()\<close>: two lower-case hexadecimal digits for each byte.\<close>

definition hex_digit :: "nat \<Rightarrow> char" where
  "hex_digit n = ''0123456789abcdef'' ! (n mod 16)"

definition hexdigest :: "string \<Rightarrow> string" where
  "hexdigest bs = concat (map (\<lambda>b. [hex_digit (of_char b div 16), hex_digit (of_char b)]) bs)"

definition is_ascii :: "char \<Rightarrow> bool" where
  "is_ascii c = ((of_char c :: nat) < 128)"

text \<open>\<open>hmac.compare_digest\<close> on two \<open>str\<close>: equality, and a \<open>TypeError\<close> when one holds a
  character beyond ASCII.\<close>

definition compare_digest :: "string \<Rightarrow> string \<Rightarrow> error + bool" where
  "compare_digest a b =
     (if list_all is_ascii a \<and> list_all is_ascii b then Inr (a = b)
      else Inl (TypeError ''comparing strings with non-ASCII characters is not supported''))"

text \<open>\<open>obj.get(key, default)\<close> on a decoded JSON value: only a dict has the method.\<close>

fun py_get :: "json \<Rightarrow> string \<Rightarrow> json \<Rightarrow> error + json" where
  "py_get (JObj kvs) k dflt = Inr (case map_of kvs k of Some v \<Rightarrow> v | None \<Rightarrow> dflt)"
| "py_get j k dflt = Inl (AttributeError ''object has no attribute get'')"

subsection \<open>Feedback store and metrics engine\<close>

text \<open>\<open>FeedbackEvent\<close>, as \<open>handle_reaction_added\<close> constructs it; the user is whatever
  the event holds under \<open>"user"\<close>.\<close>

record feedback_event =
  fe_digest_item_id :: string
  fe_user_id :: json
  fe_team :: string
  feedback_type :: string
  created_at :: string

text \<open>
  Modelled from the spec: the class \<open>FeedbackStore\<close> (daily_digest/feedback) is not among
  the sources. Its state is the stored digest items and the stored feedback events, each
  event with its store-local identifier (section 3, section 4.5).
\<close>

record feedback_db =
  digest_items :: "digest_item list"
  feedback_events :: "(nat \<times> feedback_event) list"

text \<open>
  What the listener reads from its module and environment: the signing secret, HMAC-SHA256
  of the standard library (key and message to the digest's bytes), the clock as
  \<open>time.time()\<close> and as \<open>datetime.now().isoformat()\<close>, and two parts of the absent
  feedback package.
  Modelled from the spec: the emoji table of \<open>FeedbackStore\<close> is "a static, externally
  configurable table" (section 3), and \<open>FeedbackMetrics.check_rate_limit\<close> is a counter
  keyed by user (section 4.4): it may read the store and update the engine's own state
  \<open>'m\<close>, and returns \<open>(allowed, remaining)\<close>.
\<close>

record 'm listener_env =
  SIGNING_SECRET :: string
  hmac_sha256 :: "string \<Rightarrow> string \<Rightarrow> string"
  time_time :: real
  now_isoformat :: string
  emoji_table :: "string \<Rightarrow> string option"
  check_rate_limit :: "feedback_db \<Rightarrow> 'm \<Rightarrow> json \<Rightarrow> (bool \<times> int) \<times> 'm"

text \<open>
  Modelled from the spec: \<open>FeedbackStore.emoji_to_feedback_type\<close>, "pure lookup, no I/O"
  (section 4.5); a reaction that is not a string is in no table.
\<close>

definition emoji_to_feedback_type :: "'m listener_env \<Rightarrow> json \<Rightarrow> string option" where
  "emoji_to_feedback_type env reaction =
     (case reaction of JStr s \<Rightarrow> emoji_table env s | _ \<Rightarrow> None)"

text \<open>
  Modelled from the spec: \<open>FeedbackStore.get_item_by_message_ts\<close>,
  \<open>getItemByMessageReference(channel, message_ts) -> DigestItem | not found\<close> (section 4.5).
\<close>

definition get_item_by_message_ts :: "feedback_db \<Rightarrow> json \<Rightarrow> json \<Rightarrow> digest_item option" where
  "get_item_by_message_ts store message_ts channel_id =
     find (\<lambda>di. JStr (slack_message_ts di) = message_ts \<and> JStr (slack_channel_id di) = channel_id)
       (digest_items store)"

text \<open>
  Modelled from the spec: \<open>FeedbackMetrics.is_user_spamming\<close>, the duplicate-feedback
  guard, "true if a FeedbackEvent already exists for that pair" (section 4.4).
\<close>

definition is_user_spamming :: "feedback_db \<Rightarrow> json \<Rightarrow> string \<Rightarrow> bool" where
  "is_user_spamming store user_id item_id =
     list_ex (\<lambda>(i, ev). fe_user_id ev = user_id \<and> fe_digest_item_id ev = item_id)
       (feedback_events store)"

text \<open>
  Modelled from the spec: \<open>FeedbackStore.store_feedback\<close>, "append-only write; fails with
  a Conflict error kind if the pair already exists"; it returns the store-local event
  identifier (section 4.5).
\<close>

definition store_feedback :: "feedback_event \<Rightarrow> feedback_db \<Rightarrow> (error + nat) \<times> feedback_db" where
  "store_feedback ev store =
     (if is_user_spamming store (fe_user_id ev) (fe_digest_item_id ev)
      then (Inl (Conflict ''feedback already recorded''), store)
      else (let event_id = length (feedback_events store) + 1
            in (Inr event_id,
                store\<lparr>feedback_events := feedback_events store @ [(event_id, ev)]\<rparr>)))"

subsection \<open>The listener's state\<close>

text \<open>A call on the store or the metrics engine, with its arguments.\<close>

datatype step =
    EmojiLookup json
  | ItemLookup json json
  | RateLimitCheck json
  | DuplicateCheck json string
  | StoreFeedback feedback_event

text \<open>The module-level \<open>feedback_store\<close> and \<open>feedback_metrics\<close>, and the calls made on
  them, in order.\<close>

record 'm listener_state =
  db :: feedback_db
  metrics :: 'm
  calls :: "step list"

text \<open>An HTTP request as the listener reads it: \<open>request.headers.get\<close>,
  \<open>request.get_data(as_text=True)\<close>, and \<open>request.json\<close>, which is \<open>None\<close> when Flask
  cannot decode the body and raises.\<close>

record request =
  headers :: "string \<Rightarrow> string option"
  get_data :: string
  request_json :: "json option"

subsection \<open>Operations\<close>

text \<open>\<open>verify_slack_request\<close>.\<close>

definition verify_slack_request :: "'m listener_env \<Rightarrow> request \<Rightarrow> error + bool" where
  "verify_slack_request env req =
     (if SIGNING_SECRET env = [] then Inr True
      else
        (let timestamp = (case headers req ''X-Slack-Request-Timestamp'' of
                            Some t \<Rightarrow> t | None \<Rightarrow> []);
             signature = (case headers req ''X-Slack-Signature'' of
                            Some s \<Rightarrow> s | None \<Rightarrow> [])
         in case py_int timestamp of
              None \<Rightarrow> Inl (ValueError ''invalid literal for int() with base 10'')
            | Some n \<Rightarrow>
                if float_overflows n then Inl (OverflowError ''int too large to convert to float'')
                else if \<bar>time_time env - real_of_int n\<bar> > 60 * 5 then Inr False
                else
                  (let sig_basestring = ''v0:'' @ timestamp @ '':'' @ get_data req;
                       expected_sig = ''v0='' @
                          hexdigest (hmac_sha256 env (SIGNING_SECRET env) sig_basestring)
                   in compare_digest expected_sig signature)))"

text \<open>\<open>handle_reaction_added\<close>.\<close>

definition handle_reaction_added ::
  "'m listener_env \<Rightarrow> json \<Rightarrow> 'm listener_state \<Rightarrow> (error + unit) \<times> 'm listener_state" where
  "handle_reaction_added env event st =
     (case py_get event ''user'' (JStr []) of Inl e \<Rightarrow> (Inl e, st) | Inr user_id \<Rightarrow>
     (case py_get event ''reaction'' (JStr []) of Inl e \<Rightarrow> (Inl e, st) | Inr reaction \<Rightarrow>
     (case py_get event ''item'' (JObj []) of Inl e \<Rightarrow> (Inl e, st) | Inr item \<Rightarrow>
     (case py_get item ''channel'' (JStr []) of Inl e \<Rightarrow> (Inl e, st) | Inr channel_id \<Rightarrow>
     (case py_get item ''ts'' (JStr []) of Inl e \<Rightarrow> (Inl e, st) | Inr message_ts \<Rightarrow>
      (let st1 = st\<lparr>calls := calls st @ [EmojiLookup reaction]\<rparr>
       in case emoji_to_feedback_type env reaction of
            None \<Rightarrow> (Inr (), st1)
          | Some ftype \<Rightarrow>
              if ftype = [] then (Inr (), st1)
              else
                (let st2 = st1\<lparr>calls := calls st1 @ [ItemLookup message_ts channel_id]\<rparr>
                 in case get_item_by_message_ts (db st2) message_ts channel_id of
                      None \<Rightarrow> (Inr (), st2)
                    | Some digest_item \<Rightarrow>
                        (let ((allowed, remaining), m') =
                               check_rate_limit env (db st2) (metrics st2) user_id;
                             st3 = st2\<lparr>metrics := m',
                                       calls := calls st2 @ [RateLimitCheck user_id]\<rparr>
                         in if \<not> allowed then (Inr (), st3)
                            else
                              (let st4 = st3\<lparr>calls := calls st3 @
                                      [DuplicateCheck user_id (di_digest_item_id digest_item)]\<rparr>
                               in if is_user_spamming (db st4) user_id
                                       (di_digest_item_id digest_item)
                                  then (Inr (), st4)
                                  else
                                    (let fev = \<lparr>fe_digest_item_id = di_digest_item_id digest_item,
                                                fe_user_id = user_id,
                                                fe_team = di_team digest_item,
                                                feedback_type = ftype,
                                                created_at = now_isoformat env\<rparr>;
                                         st5 = st4\<lparr>calls := calls st4 @ [StoreFeedback fev]\<rparr>
                                     in case store_feedback fev (db st5) of
                                          (Inl e, store') \<Rightarrow> (Inl e, st5\<lparr>db := store'\<rparr>)
                                        | (Inr event_id, store') \<Rightarrow>
                                            (Inr (), st5\<lparr>db := store'\<rparr>)))))))))))"

text \<open>\<open>handle_reaction_removed\<close>.\<close>

definition handle_reaction_removed ::
  "'m listener_env \<Rightarrow> json \<Rightarrow> 'm listener_state \<Rightarrow> (error + unit) \<times> 'm listener_state" where
  "handle_reaction_removed env event st =
     (case py_get event ''user'' (JStr []) of Inl e \<Rightarrow> (Inl e, st) | Inr user_id \<Rightarrow>
     (case py_get event ''reaction'' (JStr []) of Inl e \<Rightarrow> (Inl e, st) | Inr reaction \<Rightarrow>
      (let st1 = st\<lparr>calls := calls st @ [EmojiLookup reaction]\<rparr>;
           ftype = emoji_to_feedback_type env reaction
       in (Inr (), st1))))"

text \<open>\<open>handle_slack_event\<close>: the response is \<open>jsonify\<close>'s body and the status. An
  exception that leaves the view is not a response of the view.\<close>

definition ok_body :: json where
  "ok_body = JObj [(''ok'', JBool True)]"

definition handle_slack_event ::
  "'m listener_env \<Rightarrow> request \<Rightarrow> 'm listener_state
    \<Rightarrow> (error + json \<times> nat) \<times> 'm listener_state" where
  "handle_slack_event env req st =
     (case verify_slack_request env req of
        Inl e \<Rightarrow> (Inl e, st)
      | Inr verified \<Rightarrow>
          if \<not> verified then (Inr (JObj [(''error'', JStr ''Invalid signature'')], 403), st)
          else
            (case request_json req of
               None \<Rightarrow> (Inl (BadRequest ''Failed to decode JSON object''), st)
             | Some data \<Rightarrow>
                 (case py_get data ''type'' JNull of
                    Inl e \<Rightarrow> (Inl e, st)
                  | Inr ty \<Rightarrow>
                      if ty = JStr ''url_verification'' then
                        (case py_get data ''challenge'' JNull of
                           Inl e \<Rightarrow> (Inl e, st)
                         | Inr challenge \<Rightarrow> (Inr (JObj [(''challenge'', challenge)], 200), st))
                      else if ty = JStr ''event_callback'' then
                        (case py_get data ''event'' (JObj []) of
                           Inl e \<Rightarrow> (Inl e, st)
                         | Inr event \<Rightarrow>
                             (case py_get event ''type'' JNull of
                                Inl e \<Rightarrow> (Inl e, st)
                              | Inr event_type \<Rightarrow>
                                  if event_type = JStr ''reaction_added'' then
                                    (case handle_reaction_added env event st of
                                       (Inl e, st') \<Rightarrow> (Inl e, st')
                                     | (Inr u, st') \<Rightarrow> (Inr (ok_body, 200), st'))
                                  else if event_type = JStr ''reaction_removed'' then
                                    (case handle_reaction_removed env event st of
                                       (Inl e, st') \<Rightarrow> (Inl e, st')
                                     | (Inr u, st') \<Rightarrow> (Inr (ok_body, 200), st'))
                                  else (Inr (ok_body, 200), st)))
                      else (Inr (ok_body, 200), st))))"

section \<open>Describing a run of the distribution engine\<close>

text \<open>
  The definitions of this section are not code of the repository: they name the calls a
  run makes and the answers the client gives, so that the theorems below can say what a
  run did.
\<close>

text \<open>The call that posts an item message to a channel.\<close>

definition item_call :: "string \<Rightarrow> digest_item_message \<Rightarrow> call" where
  "item_call channel m = PostMessage channel (msg_text m) (Some (blocks m))"

text \<open>The answers the client gives when the items are posted one after the other, the
  first of them after the calls \<open>h\<close>.\<close>

fun answers ::
  "slack_client \<Rightarrow> string \<Rightarrow> digest_item_message list \<Rightarrow> call list
    \<Rightarrow> (digest_item_message \<times> (error + slack_result)) list" where
  "answers cl channel [] h = []"
| "answers cl channel (m # ms) h =
     (m, cl h (item_call channel m)) # answers cl channel ms (h @ [item_call channel m])"

text \<open>The entries of \<open>results["items"]\<close> that a list of answers gives: one for each post
  that returned.\<close>

fun entries :: "string \<Rightarrow> (digest_item_message \<times> (error + slack_result)) list \<Rightarrow> item_post list" where
  "entries sec [] = []"
| "entries sec ((m, Inl e) # as) = entries sec as"
| "entries sec ((m, Inr result) # as) =
     \<lparr>ip_digest_item_id = digest_item_id m, ip_message_ts = res_ts result,
      ip_ok = res_ok result, ip_confidence = confidence m, ip_section = sec\<rparr> # entries sec as"

text \<open>The \<open>DigestItem\<close> of an item message posted as \<open>message_ts\<close>.\<close>

definition to_digest_item ::
  "runtime \<Rightarrow> string \<Rightarrow> string \<Rightarrow> digest_item_message \<Rightarrow> string \<Rightarrow> digest_item" where
  "to_digest_item rt rid channel m message_ts =
     \<lparr>di_digest_item_id = digest_item_id m, di_run_id = rid, di_date = now_date rt,
      di_team = team m, di_item_type = item_type m, di_title = title m,
      di_summary = msg_text m, di_confidence = confidence m,
      slack_message_ts = message_ts, slack_channel_id = channel\<rparr>"

text \<open>The posts that returned a result reporting \<open>ok\<close>.\<close>

fun ok_answers ::
  "(digest_item_message \<times> (error + slack_result)) list \<Rightarrow> (digest_item_message \<times> slack_result) list" where
  "ok_answers [] = []"
| "ok_answers ((m, Inl e) # as) = ok_answers as"
| "ok_answers ((m, Inr result) # as) =
     (if res_ok result = Some True then (m, result) # ok_answers as else ok_answers as)"

text \<open>The \<open>DigestItem\<close> records of the posts that reported \<open>ok\<close>.\<close>

definition records ::
  "runtime \<Rightarrow> string \<Rightarrow> string \<Rightarrow> (digest_item_message \<times> (error + slack_result)) list
    \<Rightarrow> digest_item list" where
  "records rt rid channel as =
     map (\<lambda>(m, result). to_digest_item rt rid channel m (ts_or_empty result)) (ok_answers as)"

text \<open>The header post and the divider post.\<close>

definition header_call ::
  "('o, 'a) digest_distributor \<Rightarrow> 'o \<Rightarrow> (string \<times> 'a team_analysis) list \<Rightarrow> call" where
  "header_call d output team_analyses =
     PostMessage (digest_channel (config d))
       (fst (format_header_message (formatter d) output team_analyses))
       (Some (snd (format_header_message (formatter d) output team_analyses)))"

definition divider_call :: "('o, 'a) digest_distributor \<Rightarrow> call" where
  "divider_call d = PostMessage (digest_channel (config d)) divider_text (Some divider_blocks)"

text \<open>The client's answers to the high-confidence items, posted after the calls \<open>h0\<close> and
  the header, and to the low-confidence items, posted after the divider.\<close>

definition high_answers ::
  "('o, 'a) digest_distributor \<Rightarrow> 'o \<Rightarrow> (string \<times> 'a team_analysis) list
    \<Rightarrow> digest_item_message list \<Rightarrow> call list
    \<Rightarrow> (digest_item_message \<times> (error + slack_result)) list" where
  "high_answers d output team_analyses high h0 =
     answers (client d) (digest_channel (config d)) high (h0 @ [header_call d output team_analyses])"

definition low_answers ::
  "('o, 'a) digest_distributor \<Rightarrow> 'o \<Rightarrow> (string \<times> 'a team_analysis) list
    \<Rightarrow> digest_item_message list \<Rightarrow> digest_item_message list \<Rightarrow> call list
    \<Rightarrow> (digest_item_message \<times> (error + slack_result)) list" where
  "low_answers d output team_analyses high low h0 =
     answers (client d) (digest_channel (config d)) low
       (h0 @ header_call d output team_analyses #
          map (item_call (digest_channel (config d))) high @ [divider_call d])"

text \<open>The history in which the divider is posted.\<close>

definition divider_history ::
  "('o, 'a) digest_distributor \<Rightarrow> 'o \<Rightarrow> (string \<times> 'a team_analysis) list
    \<Rightarrow> digest_item_message list \<Rightarrow> call list \<Rightarrow> call list" where
  "divider_history d output team_analyses high h0 =
     h0 @ header_call d output team_analyses # map (item_call (digest_channel (config d))) high"

text \<open>The calls the team loop makes: one for each team with a configured channel.\<close>

fun team_calls ::
  "('o, 'a) digest_distributor \<Rightarrow> (string \<times> 'a team_analysis) list \<Rightarrow> (origin \<times> call) list" where
  "team_calls d [] = []"
| "team_calls d ((tname, ta) # rest) =
     (case channels (config d) (team_name ta) of
        None \<Rightarrow> []
      | Some channel_id \<Rightarrow>
          if channel_id = [] then []
          else [(TeamDetails,
                 PostMessage channel_id (format_team_details (formatter d) ta) None)])
     @ team_calls d rest"

text \<open>The calls the leadership loop makes: one for each recipient.\<close>

definition dm_calls ::
  "('o, 'a) digest_distributor \<Rightarrow> 'o \<Rightarrow> (string \<times> 'a team_analysis) list \<Rightarrow> string list
    \<Rightarrow> (origin \<times> call) list" where
  "dm_calls d output team_analyses users =
     map (\<lambda>u. (LeadershipDm, SendDm u (format_leadership_dm (formatter d) output team_analyses)))
       users"

text \<open>The calls \<open>_post_main_digest_with_items\<close> makes after the calls \<open>h0\<close>.\<close>

definition main_trace ::
  "('o, 'a) digest_distributor \<Rightarrow> 'o \<Rightarrow> (string \<times> 'a team_analysis) list \<Rightarrow> string
    \<Rightarrow> (string \<Rightarrow> real option) option \<Rightarrow> call list \<Rightarrow> (origin \<times> call) list" where
  "main_trace d output team_analyses rid item_confidences h0 =
     (let channel = digest_channel (config d);
          high = fst (format_digest_items (formatter d) team_analyses rid item_confidences);
          low = fst (snd (format_digest_items (formatter d) team_analyses rid item_confidences))
      in (Header, header_call d output team_analyses) #
         (if isl (client d h0 (header_call d output team_analyses)) then []
          else map (\<lambda>m. (HighItem, item_call channel m)) high @
               (if low = [] then []
                else (Divider, divider_call d) #
                     (if isl (client d (h0 @ header_call d output team_analyses #
                                 map (item_call channel) high) (divider_call d))
                      then []
                      else map (\<lambda>m. (LowItem, item_call channel m)) low))))"

text \<open>The calls of one origin in a trace, and the result of a run that returned.\<close>

definition calls_of :: "origin \<Rightarrow> (origin \<times> call) list \<Rightarrow> call list" where
  "calls_of og tr = map snd (filter (\<lambda>x. fst x = og) tr)"

definition result_of :: "(error + 'r) \<times> 's \<Rightarrow> 'r option" where
  "result_of out = (case fst out of Inr r \<Rightarrow> Some r | Inl e \<Rightarrow> None)"

text \<open>The items of a result that report \<open>ok\<close>.\<close>

definition ok_posts :: "item_post list \<Rightarrow> item_post list" where
  "ok_posts ps = filter (\<lambda>p. ip_ok p = Some True) ps"

text \<open>The result and the world after step 1 of \<open>distribute\<close>.\<close>

definition after_main ::
  "('o, 'a) digest_distributor \<Rightarrow> runtime \<Rightarrow> 'o \<Rightarrow> (string \<times> 'a team_analysis) list
    \<Rightarrow> string option \<Rightarrow> (string \<Rightarrow> real option) option \<Rightarrow> world
    \<Rightarrow> distribution_result \<times> world" where
  "after_main d rt output tas rid_opt ic w =
     (case post_main_digest_with_items d rt output tas (effective_run_id rt rid_opt) ic w of
        (Inr main_res, w') \<Rightarrow>
          (\<lparr>run_id = effective_run_id rt rid_opt, main_post = mr_header main_res,
            item_posts = mr_items main_res, team_posts = [], dms = [], errors = [],
            items_stored = mr_items_stored main_res\<rparr>, w')
      | (Inl e, w') \<Rightarrow>
          (\<lparr>run_id = effective_run_id rt rid_opt, main_post = None,
            item_posts = [], team_posts = [], dms = [],
            errors = [''Failed to post main digest: '' @ str_of_error e],
            items_stored = 0\<rparr>, w'))"

text \<open>The \<open>DigestItem\<close> records \<open>_post_main_digest_with_items\<close> hands to the store
  when a store is configured and available.\<close>

definition main_records ::
  "('o, 'a) digest_distributor \<Rightarrow> runtime \<Rightarrow> 'o \<Rightarrow> (string \<times> 'a team_analysis) list \<Rightarrow> string
    \<Rightarrow> (string \<Rightarrow> real option) option \<Rightarrow> call list \<Rightarrow> digest_item list" where
  "main_records d rt output team_analyses rid item_confidences h0 =
     (let channel = digest_channel (config d);
          high = fst (format_digest_items (formatter d) team_analyses rid item_confidences);
          low = fst (snd (format_digest_items (formatter d) team_analyses rid item_confidences))
      in if isl (client d h0 (header_call d output team_analyses)) then []
         else records rt rid channel (high_answers d output team_analyses high h0) @
              (if low = [] \<or> isl (client d (divider_history d output team_analyses high h0)
                                      (divider_call d))
               then []
               else records rt rid channel (low_answers d output team_analyses high low h0)))"

section \<open>A formatter from the specification, and scenarios\<close>

text \<open>
  Modelled from the spec: \<open>DigestFormatter.format_digest_items\<close> (formatter.py) is not
  among the sources. Section 4.6, step 2: "confidence >= highThreshold -> high bucket;
  lowThreshold <= confidence < highThreshold -> low bucket; confidence < lowThreshold ->
  excluded".
\<close>

definition partition_by_confidence ::
  "real \<Rightarrow> real \<Rightarrow> digest_item_message list
    \<Rightarrow> digest_item_message list \<times> digest_item_message list \<times> digest_item_message list" where
  "partition_by_confidence high_threshold low_threshold ms =
     (filter (\<lambda>m. confidence m \<ge> high_threshold) ms,
      filter (\<lambda>m. low_threshold \<le> confidence m \<and> confidence m < high_threshold) ms,
      filter (\<lambda>m. confidence m < low_threshold) ms)"

text \<open>
  Modelled from the spec: the confidence overrides that \<open>distribute\<close> hands to the
  formatter ("Optional confidence overrides from feedback processor"), taken as keyed by
  the digest item identifier.
\<close>

definition apply_override :: "(string \<Rightarrow> real option) option \<Rightarrow> digest_item_message \<Rightarrow> digest_item_message" where
  "apply_override item_confidences m =
     (case item_confidences of
        None \<Rightarrow> m
      | Some overrides \<Rightarrow>
          (case overrides (digest_item_id m) of
             None \<Rightarrow> m
           | Some c \<Rightarrow> m\<lparr>confidence := c\<rparr>))"

text \<open>
  Modelled from the spec: a formatter whose team analyses hold the item messages of the
  team and whose bucketing is the partition above; the texts of the header, of the team
  details and of the leadership summary are placeholders.
\<close>

definition spec_formatter :: "real \<Rightarrow> real \<Rightarrow> (unit, digest_item_message list) digest_formatter" where
  "spec_formatter high_threshold low_threshold =
     \<lparr>format_header_message = (\<lambda>out tas. (''Daily Digest'', JArr [])),
      format_digest_items = (\<lambda>tas rid item_confidences.
         partition_by_confidence high_threshold low_threshold
           (map (apply_override item_confidences) (concat (map (\<lambda>p. analysis (snd p)) tas)))),
      format_main_digest = (\<lambda>out tas. (''Daily Digest'', JArr [])),
      format_team_details = (\<lambda>ta. ''Details for '' @ team_name ta),
      format_leadership_dm = (\<lambda>out tas. ''Executive summary'')\<rparr>"

text \<open>An item message of team \<open>eng\<close> whose identifier is also its text.\<close>

definition sample_item :: "string \<Rightarrow> real \<Rightarrow> digest_item_message" where
  "sample_item i c =
     \<lparr>digest_item_id = i, team = ''eng'', item_type = ''update'', title = i,
      msg_text = i, blocks = JArr [], confidence = c\<rparr>"

text \<open>Scenario C of the specification: confidences 0.9, 0.5 and 0.1.\<close>

definition scenario_c :: "(string \<times> digest_item_message list team_analysis) list" where
  "scenario_c =
     [(''eng'', \<lparr>team_name = ''eng'',
                analysis = [sample_item ''a'' (9 / 10), sample_item ''b'' (5 / 10),
                            sample_item ''c'' (1 / 10)]\<rparr>)]"

text \<open>Scenario D of the specification: a batch of five items.\<close>

definition scenario_d :: "(string \<times> digest_item_message list team_analysis) list" where
  "scenario_d =
     [(''eng'', \<lparr>team_name = ''eng'',
                analysis = [sample_item ''a'' (9 / 10), sample_item ''b'' (8 / 10),
                            sample_item ''c'' (7 / 10), sample_item ''d'' (5 / 10),
                            sample_item ''e'' (3 / 10)]\<rparr>)]"

text \<open>A client that raises on the calls of \<open>bad\<close> and answers \<open>ok\<close> to every other call, the
  message timestamp growing with the history.\<close>

definition failing_client :: "call list \<Rightarrow> slack_client" where
  "failing_client bad h c =
     (if c \<in> set bad then Inl (SlackApiError ''not_in_channel'')
      else Inr \<lparr>res_ok = Some True, res_ts = Some (replicate (Suc (length h)) (CHR ''1'')),
                res_error = None\<rparr>)"

definition sample_config :: digest_config where
  "sample_config =
     \<lparr>digest_channel = ''C0'', channels = map_of [(''eng'', ''C1'')],
      leadership_users = [''U1'']\<rparr>"

definition sample_distributor :: "call list \<Rightarrow> bool \<Rightarrow> (unit, digest_item_message list) digest_distributor" where
  "sample_distributor bad store =
     \<lparr>client = failing_client bad, config = sample_config,
      formatter = spec_formatter (7 / 10) (3 / 10), feedback_store = store\<rparr>"

definition sample_runtime :: runtime where
  "sample_runtime =
     \<lparr>FEEDBACK_AVAILABLE = True, now_date = ''2025-01-15'', now_stamp = ''20250115_090000''\<rparr>"

definition empty_world :: world where
  "empty_world = \<lparr>posted = [], stored = []\<rparr>"

section \<open>Describing a run of the listener, and sample requests\<close>

text \<open>The place of a call in the ingestion pipeline.\<close>

fun step_rank :: "step \<Rightarrow> nat" where
  "step_rank (EmojiLookup reaction) = 0"
| "step_rank (ItemLookup message_ts channel_id) = 1"
| "step_rank (RateLimitCheck user_id) = 2"
| "step_rank (DuplicateCheck user_id item_id) = 3"
| "step_rank (StoreFeedback ev) = 4"

text \<open>
  The payloads whose shape the handlers rely on: in an event callback the \<open>event\<close>, when
  present, is an object, and in a \<open>reaction_added\<close> event the \<open>item\<close>, when present, is an
  object.
\<close>

definition item_is_object :: "(string \<times> json) list \<Rightarrow> bool" where
  "item_is_object ev =
     (case map_of ev ''item'' of None \<Rightarrow> True | Some (JObj item) \<Rightarrow> True | Some other \<Rightarrow> False)"

definition callback_shape :: "(string \<times> json) list \<Rightarrow> bool" where
  "callback_shape kvs =
     (if map_of kvs ''type'' = Some (JStr ''event_callback'') then
        (case map_of kvs ''event'' of
           None \<Rightarrow> True
         | Some (JObj ev) \<Rightarrow>
             if map_of ev ''type'' = Some (JStr ''reaction_added'') then item_is_object ev
             else True
         | Some other \<Rightarrow> False)
      else True)"

text \<open>A sample rate limiter: three accepted checks, counted in the engine's state.\<close>

definition sample_limiter :: "feedback_db \<Rightarrow> nat \<Rightarrow> json \<Rightarrow> (bool \<times> int) \<times> nat" where
  "sample_limiter store n user_id = ((n < 3, 2 - int n), Suc n)"

text \<open>A sample environment: a placeholder for HMAC-SHA256 whose digest is the two bytes
  \<open>AB\<close>, and the emoji table of the listener's test mode.\<close>

definition sample_env :: "string \<Rightarrow> nat listener_env" where
  "sample_env secret =
     \<lparr>SIGNING_SECRET = secret,
      hmac_sha256 = (\<lambda>key msg. ''AB''),
      time_time = 1700000100,
      now_isoformat = ''2023-11-14T22:15:00'',
      emoji_table = map_of [(''white_check_mark'', ''positive''), (''x'', ''negative'')],
      check_rate_limit = sample_limiter\<rparr>"

text \<open>A request signed for the sample environment, carrying a payload.\<close>

definition signed_request :: "json \<Rightarrow> request" where
  "signed_request payload =
     \<lparr>headers = map_of [(''X-Slack-Request-Timestamp'', ''1700000000''),
                        (''X-Slack-Signature'', ''v0=4142'')],
      get_data = ''{}'',
      request_json = Some payload\<rparr>"

text \<open>A request with no timestamp header, and one whose timestamp is not a number.\<close>

definition request_without_timestamp :: request where
  "request_without_timestamp =
     \<lparr>headers = map_of [(''X-Slack-Signature'', ''v0=4142'')],
      get_data = ''{}'',
      request_json = Some (JObj [])\<rparr>"

definition request_with_text_timestamp :: request where
  "request_with_text_timestamp =
     \<lparr>headers = map_of [(''X-Slack-Request-Timestamp'', ''yesterday''),
                        (''X-Slack-Signature'', ''v0=4142'')],
      get_data = ''{}'',
      request_json = Some (JObj [])\<rparr>"

text \<open>A tracked digest item, the store that holds it, and a reaction to its message.\<close>

definition tracked_item :: digest_item where
  "tracked_item =
     \<lparr>di_digest_item_id = ''item-1'', di_run_id = ''run1'', di_date = ''2023-11-14'',
      di_team = ''eng'', di_item_type = ''update'', di_title = ''t'', di_summary = ''s'',
      di_confidence = 9 / 10, slack_message_ts = ''1700000000.000100'',
      slack_channel_id = ''C0''\<rparr>"

definition sample_state :: "nat listener_state" where
  "sample_state =
     \<lparr>db = \<lparr>digest_items = [tracked_item], feedback_events = []\<rparr>, metrics = 0, calls = []\<rparr>"

definition reaction_event :: "string \<Rightarrow> string \<Rightarrow> json" where
  "reaction_event kind emoji =
     JObj [(''type'', JStr kind), (''user'', JStr ''U1''), (''reaction'', JStr emoji),
           (''item'', JObj [(''type'', JStr ''message''), (''channel'', JStr ''C0''),
                            (''ts'', JStr ''1700000000.000100'')])]"

text \<open>The feedback event that \<open>handle_reaction_added\<close> constructs.\<close>

definition new_feedback_event ::
  "'m listener_env \<Rightarrow> json \<Rightarrow> string \<Rightarrow> digest_item \<Rightarrow> feedback_event" where
  "new_feedback_event env user_id ftype digest_item =
     \<lparr>fe_digest_item_id = di_digest_item_id digest_item, fe_user_id = user_id,
      fe_team = di_team digest_item, feedback_type = ftype,
      created_at = now_isoformat env\<rparr>"

text \<open>The four checks of the pipeline, all passed.\<close>

definition accepted ::
  "'m listener_env \<Rightarrow> 'm listener_state \<Rightarrow> json \<Rightarrow> json \<Rightarrow> json \<Rightarrow> json \<Rightarrow> bool" where
  "accepted env st user_id reaction channel_id message_ts =
     (case emoji_to_feedback_type env reaction of
        None \<Rightarrow> False
      | Some ftype \<Rightarrow>
          ftype \<noteq> [] \<and>
          (case get_item_by_message_ts (db st) message_ts channel_id of
             None \<Rightarrow> False
           | Some digest_item \<Rightarrow>
               fst (fst (check_rate_limit env (db st) (metrics st) user_id)) \<and>
               \<not> is_user_spamming (db st) user_id (di_digest_item_id digest_item)))"

text \<open>A request whose signature is not the expected one.\<close>

definition forged_request :: request where
  "forged_request =
     \<lparr>headers = map_of [(''X-Slack-Request-Timestamp'', ''1700000000''),
                        (''X-Slack-Signature'', ''v0=0000'')],
      get_data = ''{}'',
      request_json = Some (JObj [])\<rparr>"

section \<open>Properties of the distribution engine\<close>

lemma post_high_conf_run:
  "post_high_conf d rt channel rid ms (results, w) =
     (results\<lparr>mr_items := mr_items results @
                 entries ''main'' (answers (client d) channel ms (map snd (posted w))),
              mr_items_stored := mr_items_stored results +
                 (if feedback_store d
                  then length (ok_answers (answers (client d) channel ms (map snd (posted w))))
                  else 0)\<rparr>,
      w\<lparr>posted := posted w @ map (\<lambda>m. (HighItem, item_call channel m)) ms,
        stored := stored w @
                 (if feedback_store d \<and> FEEDBACK_AVAILABLE rt
                  then records rt rid channel (answers (client d) channel ms (map snd (posted w)))
                  else [])\<rparr>)"
proof (induction ms arbitrary: results w)
  case Nil
  show ?case by (simp add: records_def)
next
  case (Cons m ms)
  show ?case
  proof (cases "client d (map snd (posted w)) (item_call channel m)")
    case (Inl e)
    then show ?thesis
      by (simp add: Cons.IH post_message_def item_call_def [symmetric] records_def)
  next
    case (Inr result)
    then show ?thesis
      by (simp add: Cons.IH post_message_def item_call_def [symmetric] records_def
          distributor_store_digest_item_def store_digest_item_def to_digest_item_def)
  qed
qed

lemma post_low_conf_run:
  "post_low_conf d rt channel rid ms (results, w) =
     (results\<lparr>mr_items := mr_items results @
                 entries ''fyi'' (answers (client d) channel ms (map snd (posted w))),
              mr_items_stored := mr_items_stored results +
                 (if feedback_store d
                  then length (ok_answers (answers (client d) channel ms (map snd (posted w))))
                  else 0)\<rparr>,
      w\<lparr>posted := posted w @ map (\<lambda>m. (LowItem, item_call channel m)) ms,
        stored := stored w @
                 (if feedback_store d \<and> FEEDBACK_AVAILABLE rt
                  then records rt rid channel (answers (client d) channel ms (map snd (posted w)))
                  else [])\<rparr>)"
proof (induction ms arbitrary: results w)
  case Nil
  show ?case by (simp add: records_def)
next
  case (Cons m ms)
  show ?case
  proof (cases "client d (map snd (posted w)) (item_call channel m)")
    case (Inl e)
    then show ?thesis
      by (simp add: Cons.IH post_message_def item_call_def [symmetric] records_def)
  next
    case (Inr result)
    then show ?thesis
      by (simp add: Cons.IH post_message_def item_call_def [symmetric] records_def
          distributor_store_digest_item_def store_digest_item_def to_digest_item_def)
  qed
qed

lemma main_header_raises:
  assumes "client d (map snd (posted w)) (header_call d output tas) = Inl e"
  shows "post_main_digest_with_items d rt output tas rid ic w =
           (Inl e, w\<lparr>posted := posted w @ [(Header, header_call d output tas)]\<rparr>)"
  using assms
  by (simp add: post_main_digest_with_items_def post_message_def header_call_def
      Let_def case_prod_beta)

lemma main_no_low:
  assumes "client d (map snd (posted w)) (header_call d output tas) = Inr hr"
    and "format_digest_items (formatter d) tas rid ic = (high, [], excl)"
  shows "post_main_digest_with_items d rt output tas rid ic w =
           (Inr \<lparr>mr_header = Some hr,
                 mr_items = entries ''main'' (high_answers d output tas high (map snd (posted w))),
                 mr_items_stored =
                   (if feedback_store d
                    then length (ok_answers (high_answers d output tas high (map snd (posted w))))
                    else 0)\<rparr>,
            w\<lparr>posted := posted w @ (Header, header_call d output tas) #
                  map (\<lambda>m. (HighItem, item_call (digest_channel (config d)) m)) high,
              stored := stored w @
                 (if feedback_store d \<and> FEEDBACK_AVAILABLE rt
                  then records rt rid (digest_channel (config d))
                         (high_answers d output tas high (map snd (posted w)))
                  else [])\<rparr>)"
  using assms
  by (simp add: post_main_digest_with_items_def post_message_def header_call_def
      post_high_conf_run high_answers_def Let_def case_prod_beta)

lemma main_divider_raises:
  assumes "client d (map snd (posted w)) (header_call d output tas) = Inr hr"
    and "format_digest_items (formatter d) tas rid ic = (high, low, excl)"
    and "low \<noteq> []"
    and "client d (map snd (posted w) @ header_call d output tas #
            map (item_call (digest_channel (config d))) high) (divider_call d) = Inl e"
  shows "post_main_digest_with_items d rt output tas rid ic w =
           (Inl e,
            w\<lparr>posted := posted w @ (Header, header_call d output tas) #
                  map (\<lambda>m. (HighItem, item_call (digest_channel (config d)) m)) high @
                  [(Divider, divider_call d)],
              stored := stored w @
                 (if feedback_store d \<and> FEEDBACK_AVAILABLE rt
                  then records rt rid (digest_channel (config d))
                         (high_answers d output tas high (map snd (posted w)))
                  else [])\<rparr>)"
  using assms
  by (simp add: post_main_digest_with_items_def post_message_def header_call_def
      post_high_conf_run high_answers_def divider_call_def comp_def Let_def case_prod_beta)

lemma main_all:
  assumes "client d (map snd (posted w)) (header_call d output tas) = Inr hr"
    and "format_digest_items (formatter d) tas rid ic = (high, low, excl)"
    and "low \<noteq> []"
    and "client d (map snd (posted w) @ header_call d output tas #
            map (item_call (digest_channel (config d))) high) (divider_call d) = Inr dr"
  shows "post_main_digest_with_items d rt output tas rid ic w =
           (Inr \<lparr>mr_header = Some hr,
                 mr_items = entries ''main'' (high_answers d output tas high (map snd (posted w)))
                    @ entries ''fyi'' (low_answers d output tas high low (map snd (posted w))),
                 mr_items_stored =
                   (if feedback_store d
                    then length (ok_answers (high_answers d output tas high (map snd (posted w))))
                       + length (ok_answers (low_answers d output tas high low (map snd (posted w))))
                    else 0)\<rparr>,
            w\<lparr>posted := posted w @ (Header, header_call d output tas) #
                  map (\<lambda>m. (HighItem, item_call (digest_channel (config d)) m)) high @
                  (Divider, divider_call d) #
                  map (\<lambda>m. (LowItem, item_call (digest_channel (config d)) m)) low,
              stored := stored w @
                 (if feedback_store d \<and> FEEDBACK_AVAILABLE rt
                  then records rt rid (digest_channel (config d))
                         (high_answers d output tas high (map snd (posted w)))
                     @ records rt rid (digest_channel (config d))
                         (low_answers d output tas high low (map snd (posted w)))
                  else [])\<rparr>)"
  using assms
  by (simp add: post_main_digest_with_items_def post_message_def header_call_def
      post_high_conf_run post_low_conf_run high_answers_def low_answers_def divider_call_def
      comp_def Let_def case_prod_beta)

lemma post_team_details_world:
  "snd (post_team_details d ta w) = w\<lparr>posted := posted w @ team_calls d [(tname, ta)]\<rparr>"
  by (simp add: post_team_details_def post_message_def split: option.splits)

lemma post_teams_world:
  "snd (post_teams d tas (results, w)) = w\<lparr>posted := posted w @ team_calls d tas\<rparr>"
proof (induction tas arbitrary: results w)
  case Nil
  show ?case by simp
next
  case (Cons p tas)
  obtain tname ta where p: "p = (tname, ta)" by (cases p)
  obtain a w1 where run: "post_team_details d ta w = (a, w1)" by (cases "post_team_details d ta w")
  have w1: "w1 = w\<lparr>posted := posted w @ team_calls d [(tname, ta)]\<rparr>"
    using post_team_details_world [of d ta w tname] run by simp
  show ?case
    by (cases a) (simp_all add: p run Cons.IH w1)
qed

lemma post_teams_frame:
  "run_id (fst (post_teams d tas (results, w))) = run_id results \<and>
   main_post (fst (post_teams d tas (results, w))) = main_post results \<and>
   item_posts (fst (post_teams d tas (results, w))) = item_posts results \<and>
   dms (fst (post_teams d tas (results, w))) = dms results \<and>
   items_stored (fst (post_teams d tas (results, w))) = items_stored results"
proof (induction tas arbitrary: results w)
  case Nil
  show ?case by simp
next
  case (Cons p tas)
  obtain tname ta where p: "p = (tname, ta)" by (cases p)
  obtain a w1 where run: "post_team_details d ta w = (a, w1)" by (cases "post_team_details d ta w")
  show ?case
    by (cases a) (simp_all add: p run Cons.IH)
qed





lemma send_dms_world:
  "snd (send_dms d output tas users (results, w)) =
     w\<lparr>posted := posted w @ dm_calls d output tas users\<rparr>"
proof (induction users arbitrary: results w)
  case Nil
  show ?case by (simp add: dm_calls_def)
next
  case (Cons u users)
  show ?case
    by (cases "client d (map snd (posted w))
                 (SendDm u (format_leadership_dm (formatter d) output tas))")
       (simp_all add: send_leadership_dm_def send_dm_def Cons.IH dm_calls_def)
qed

lemma send_dms_frame:
  "run_id (fst (send_dms d output tas users (results, w))) = run_id results \<and>
   main_post (fst (send_dms d output tas users (results, w))) = main_post results \<and>
   item_posts (fst (send_dms d output tas users (results, w))) = item_posts results \<and>
   team_posts (fst (send_dms d output tas users (results, w))) = team_posts results \<and>
   items_stored (fst (send_dms d output tas users (results, w))) = items_stored results"
proof (induction users arbitrary: results w)
  case Nil
  show ?case by simp
next
  case (Cons u users)
  show ?case
    by (cases "client d (map snd (posted w))
                 (SendDm u (format_leadership_dm (formatter d) output tas))")
       (simp_all add: send_leadership_dm_def send_dm_def Cons.IH)
qed




lemma distribute_unfold:
  "distribute d rt output tas rid_opt ic w =
     (Inr (fst (send_dms d output tas (leadership_users (config d))
            (post_teams d tas
               (case post_main_digest_with_items d rt output tas (effective_run_id rt rid_opt) ic w of
                  (Inr main_res, w') \<Rightarrow>
                    (\<lparr>run_id = effective_run_id rt rid_opt, main_post = mr_header main_res,
                      item_posts = mr_items main_res, team_posts = [], dms = [], errors = [],
                      items_stored = mr_items_stored main_res\<rparr>, w')
                | (Inl e, w') \<Rightarrow>
                    (\<lparr>run_id = effective_run_id rt rid_opt, main_post = None,
                      item_posts = [], team_posts = [], dms = [],
                      errors = [''Failed to post main digest: '' @ str_of_error e],
                      items_stored = 0\<rparr>, w'))))),
      snd (send_dms d output tas (leadership_users (config d))
            (post_teams d tas
               (case post_main_digest_with_items d rt output tas (effective_run_id rt rid_opt) ic w of
                  (Inr main_res, w') \<Rightarrow>
                    (\<lparr>run_id = effective_run_id rt rid_opt, main_post = mr_header main_res,
                      item_posts = mr_items main_res, team_posts = [], dms = [], errors = [],
                      items_stored = mr_items_stored main_res\<rparr>, w')
                | (Inl e, w') \<Rightarrow>
                    (\<lparr>run_id = effective_run_id rt rid_opt, main_post = None,
                      item_posts = [], team_posts = [], dms = [],
                      errors = [''Failed to post main digest: '' @ str_of_error e],
                      items_stored = 0\<rparr>, w')))))"
  by (simp add: distribute_def Let_def case_prod_beta split: prod.splits sum.splits)

lemma main_world:
  "posted (snd (post_main_digest_with_items d rt output tas rid ic w)) =
     posted w @ main_trace d output tas rid ic (map snd (posted w))"
proof -
  obtain high low excl where fmt: "format_digest_items (formatter d) tas rid ic = (high, low, excl)"
    by (cases "format_digest_items (formatter d) tas rid ic") auto
  show ?thesis
  proof (cases "client d (map snd (posted w)) (header_call d output tas)")
    case (Inl e)
    then show ?thesis
      by (simp add: main_header_raises main_trace_def Let_def)
  next
    case hdr: (Inr hr)
    show ?thesis
    proof (cases "low = []")
      case True
      with hdr fmt show ?thesis
        by (simp add: main_no_low [OF hdr] main_trace_def Let_def)
    next
      case False
      show ?thesis
      proof (cases "client d (map snd (posted w) @ header_call d output tas #
                      map (item_call (digest_channel (config d))) high) (divider_call d)")
        case (Inl e)
        from main_divider_raises [OF hdr fmt False Inl] Inl hdr fmt False show ?thesis
          by (simp add: main_trace_def Let_def)
      next
        case (Inr dr)
        from main_all [OF hdr fmt False Inr] Inr hdr fmt False show ?thesis
          by (simp add: main_trace_def Let_def)
      qed
    qed
  qed
qed

lemma post_teams_posted:
  "posted (snd (post_teams d tas rw)) = posted (snd rw) @ team_calls d tas"
  using post_teams_world [of d tas "fst rw" "snd rw"] by simp

lemma send_dms_posted:
  "posted (snd (send_dms d output tas users rw)) = posted (snd rw) @ dm_calls d output tas users"
  using send_dms_world [of d "output" tas users "fst rw" "snd rw"] by simp

lemma post_teams_stored: "stored (snd (post_teams d tas rw)) = stored (snd rw)"
  using post_teams_world [of d tas "fst rw" "snd rw"] by simp

lemma send_dms_stored: "stored (snd (send_dms d output tas users rw)) = stored (snd rw)"
  using send_dms_world [of d "output" tas users "fst rw" "snd rw"] by simp

lemma distribute_posted:
  "posted (snd (distribute d rt output tas rid_opt ic w)) =
     posted w @ main_trace d output tas (effective_run_id rt rid_opt) ic (map snd (posted w))
       @ team_calls d tas @ dm_calls d output tas (leadership_users (config d))"
proof -
  obtain a w1 where run:
    "post_main_digest_with_items d rt output tas (effective_run_id rt rid_opt) ic w = (a, w1)"
    by (cases "post_main_digest_with_items d rt output tas (effective_run_id rt rid_opt) ic w")
  have w1: "posted w1 = posted w @
              main_trace d output tas (effective_run_id rt rid_opt) ic (map snd (posted w))"
    using main_world [of d rt "output" tas "effective_run_id rt rid_opt" ic w] run by simp
  show ?thesis
    by (cases a) (simp_all add: distribute_unfold run send_dms_posted post_teams_posted w1)
qed

lemma post_teams_frame_rw:
  "run_id (fst (post_teams d tas rw)) = run_id (fst rw) \<and>
   main_post (fst (post_teams d tas rw)) = main_post (fst rw) \<and>
   item_posts (fst (post_teams d tas rw)) = item_posts (fst rw) \<and>
   dms (fst (post_teams d tas rw)) = dms (fst rw) \<and>
   items_stored (fst (post_teams d tas rw)) = items_stored (fst rw)"
  using post_teams_frame [of d tas "fst rw" "snd rw"] by simp

lemma send_dms_frame_rw:
  "run_id (fst (send_dms d output tas users rw)) = run_id (fst rw) \<and>
   main_post (fst (send_dms d output tas users rw)) = main_post (fst rw) \<and>
   item_posts (fst (send_dms d output tas users rw)) = item_posts (fst rw) \<and>
   team_posts (fst (send_dms d output tas users rw)) = team_posts (fst rw) \<and>
   items_stored (fst (send_dms d output tas users rw)) = items_stored (fst rw)"
  using send_dms_frame [of d "output" tas users "fst rw" "snd rw"] by simp





lemma distribute_steps:
  "distribute d rt output tas rid_opt ic w =
     (Inr (fst (send_dms d output tas (leadership_users (config d))
             (post_teams d tas (after_main d rt output tas rid_opt ic w)))),
      snd (send_dms d output tas (leadership_users (config d))
             (post_teams d tas (after_main d rt output tas rid_opt ic w))))"
  by (simp add: distribute_unfold after_main_def)

lemmas sample_defs = sample_distributor_def sample_config_def spec_formatter_def
  partition_by_confidence_def apply_override_def sample_item_def failing_client_def
  sample_runtime_def empty_world_def scenario_c_def scenario_d_def

lemmas run_defs = distribute_def post_main_digest_with_items_def post_message_def
  effective_run_id_def divider_text_def divider_blocks_def clipboard_def
  distributor_store_digest_item_def store_digest_item_def ts_or_empty_def
  post_team_details_def send_leadership_dm_def send_dm_def Let_def

lemma main_stored:
  "stored (snd (post_main_digest_with_items d rt output tas rid ic w)) =
     stored w @ (if feedback_store d \<and> FEEDBACK_AVAILABLE rt
                 then main_records d rt output tas rid ic (map snd (posted w)) else [])"
proof -
  obtain high low excl where fmt: "format_digest_items (formatter d) tas rid ic = (high, low, excl)"
    by (cases "format_digest_items (formatter d) tas rid ic") auto
  show ?thesis
  proof (cases "client d (map snd (posted w)) (header_call d output tas)")
    case (Inl e)
    then show ?thesis
      by (simp add: main_header_raises main_records_def Let_def)
  next
    case hdr: (Inr hr)
    show ?thesis
    proof (cases "low = []")
      case True
      with hdr fmt show ?thesis
        by (simp add: main_no_low [OF hdr] main_records_def Let_def)
    next
      case False
      show ?thesis
      proof (cases "client d (map snd (posted w) @ header_call d output tas #
                      map (item_call (digest_channel (config d))) high) (divider_call d)")
        case (Inl e)
        from main_divider_raises [OF hdr fmt False Inl] Inl hdr fmt False show ?thesis
          by (simp add: main_records_def Let_def divider_history_def)
      next
        case (Inr dr)
        from main_all [OF hdr fmt False Inr] Inr hdr fmt False show ?thesis
          by (simp add: main_records_def Let_def divider_history_def)
      qed
    qed
  qed
qed

lemma distribute_stored:
  "stored (snd (distribute d rt output tas rid_opt ic w)) =
     stored w @ (if feedback_store d \<and> FEEDBACK_AVAILABLE rt
                 then main_records d rt output tas (effective_run_id rt rid_opt) ic
                        (map snd (posted w))
                 else [])"
proof -
  have "stored (snd (after_main d rt output tas rid_opt ic w)) =
          stored (snd (post_main_digest_with_items d rt output tas
                         (effective_run_id rt rid_opt) ic w))"
    by (simp add: after_main_def split: prod.splits sum.splits)
  then show ?thesis
    by (simp add: distribute_steps send_dms_stored post_teams_stored main_stored)
qed

lemma ok_posts_entries: "length (ok_posts (entries sec as)) = length (ok_answers as)"
  by (induction sec as rule: entries.induct) (simp_all add: ok_posts_def)

lemma ok_posts_append: "ok_posts (xs @ ys) = ok_posts xs @ ok_posts ys"
  by (simp add: ok_posts_def)

lemma main_items_stored:
  assumes "post_main_digest_with_items d rt output tas rid ic w = (Inr main_res, w')"
  shows "mr_items_stored main_res =
           (if feedback_store d then length (ok_posts (mr_items main_res)) else 0)"
proof -
  obtain high low excl where fmt: "format_digest_items (formatter d) tas rid ic = (high, low, excl)"
    by (cases "format_digest_items (formatter d) tas rid ic") auto
  show ?thesis
  proof (cases "client d (map snd (posted w)) (header_call d output tas)")
    case (Inl e)
    with assms show ?thesis
      by (simp add: main_header_raises)
  next
    case hdr: (Inr hr)
    show ?thesis
    proof (cases "low = []")
      case True
      with hdr fmt assms show ?thesis
        by (auto simp add: main_no_low [OF hdr] ok_posts_entries)
    next
      case False
      show ?thesis
      proof (cases "client d (map snd (posted w) @ header_call d output tas #
                      map (item_call (digest_channel (config d))) high) (divider_call d)")
        case (Inl e)
        from main_divider_raises [OF hdr fmt False Inl] assms show ?thesis
          by simp
      next
        case (Inr dr)
        from main_all [OF hdr fmt False Inr] assms show ?thesis
          by (auto simp add: ok_posts_entries ok_posts_append)
      qed
    qed
  qed
qed

lemma distribute_items_stored:
  "items_stored (fst (after_main d rt output tas rid_opt ic w)) =
     (if feedback_store d
      then length (ok_posts (item_posts (fst (after_main d rt output tas rid_opt ic w))))
      else 0)"
proof (cases "post_main_digest_with_items d rt output tas (effective_run_id rt rid_opt) ic w")
  case (Pair a w1)
  show ?thesis
  proof (cases a)
    case (Inl e)
    with Pair show ?thesis by (simp add: after_main_def ok_posts_def)
  next
    case (Inr main_res)
    with Pair main_items_stored [of d rt "output" tas "effective_run_id rt rid_opt" ic w main_res w1]
    show ?thesis by (simp add: after_main_def)
  qed
qed

lemma records_origin:
  assumes "di \<in> set (records rt rid channel (answers cl channel ms h))"
  shows "\<exists>m result h'. m \<in> set ms \<and> cl h' (item_call channel m) = Inr result \<and>
           res_ok result = Some True \<and>
           di = to_digest_item rt rid channel m (ts_or_empty result)"
  using assms
proof (induction ms arbitrary: h)
  case Nil
  then show ?case by (simp add: records_def)
next
  case (Cons m ms)
  show ?case
  proof (cases "cl h (item_call channel m)")
    case (Inl e)
    with Cons.prems have "di \<in> set (records rt rid channel
                            (answers cl channel ms (h @ [item_call channel m])))"
      by (simp add: records_def)
    from Cons.IH [OF this] show ?thesis by auto
  next
    case (Inr result)
    show ?thesis
    proof (cases "res_ok result = Some True \<and>
                  di = to_digest_item rt rid channel m (ts_or_empty result)")
      case True
      with Inr show ?thesis by auto
    next
      case False
      with Cons.prems Inr have "di \<in> set (records rt rid channel
                            (answers cl channel ms (h @ [item_call channel m])))"
        by (auto simp add: records_def split: if_splits)
      from Cons.IH [OF this] show ?thesis by auto
    qed
  qed
qed

lemma main_records_origin:
  assumes "di \<in> set (main_records d rt output tas rid ic h0)"
  shows "\<exists>m result h'.
           m \<in> set (fst (format_digest_items (formatter d) tas rid ic) @
                    fst (snd (format_digest_items (formatter d) tas rid ic))) \<and>
           client d h' (item_call (digest_channel (config d)) m) = Inr result \<and>
           res_ok result = Some True \<and>
           di = to_digest_item rt rid (digest_channel (config d)) m (ts_or_empty result)"
proof -
  let ?high = "fst (format_digest_items (formatter d) tas rid ic)"
  let ?low = "fst (snd (format_digest_items (formatter d) tas rid ic))"
  let ?ch = "digest_channel (config d)"
  from assms have
    "di \<in> set (records rt rid ?ch (high_answers d output tas ?high h0)) \<or>
     di \<in> set (records rt rid ?ch (low_answers d output tas ?high ?low h0))"
    by (auto simp add: main_records_def Let_def split: if_splits)
  then show ?thesis
  proof
    assume "di \<in> set (records rt rid ?ch (high_answers d output tas ?high h0))"
    from records_origin [OF this [unfolded high_answers_def]] show ?thesis by auto
  next
    assume "di \<in> set (records rt rid ?ch (low_answers d output tas ?high ?low h0))"
    from records_origin [OF this [unfolded low_answers_def]] show ?thesis by auto
  qed
qed

lemma team_calls_store_flag: "team_calls (d\<lparr>feedback_store := b\<rparr>) tas = team_calls d tas"
  by (induction tas) (auto split: option.splits)

lemma main_trace_store_flag:
  "main_trace (d\<lparr>feedback_store := b\<rparr>) output tas rid ic h0 = main_trace d output tas rid ic h0"
  by (simp add: main_trace_def header_call_def divider_call_def Let_def)

lemma dm_calls_store_flag:
  "dm_calls (d\<lparr>feedback_store := b\<rparr>) output tas users = dm_calls d output tas users"
  by (simp add: dm_calls_def)

lemma calls_of_append: "calls_of og (xs @ ys) = calls_of og xs @ calls_of og ys"
  by (simp add: calls_of_def)

lemma calls_of_Cons:
  "calls_of og (x # xs) = (if fst x = og then snd x # calls_of og xs else calls_of og xs)"
  by (simp add: calls_of_def)

lemma calls_of_Nil: "calls_of og [] = []"
  by (simp add: calls_of_def)

lemma calls_of_map:
  "calls_of og (map (\<lambda>m. (og', f m)) ms) = (if og' = og then map f ms else [])"
  by (induction ms) (simp_all add: calls_of_def)

lemma calls_of_team_calls: "og \<noteq> TeamDetails \<Longrightarrow> calls_of og (team_calls d tas) = []"
  by (induction tas) (auto simp add: calls_of_def split: option.splits)

lemma calls_of_dm_calls: "og \<noteq> LeadershipDm \<Longrightarrow> calls_of og (dm_calls d output tas users) = []"
  by (simp add: dm_calls_def calls_of_map)

lemma distribute_new_calls:
  "drop (length (posted w)) (posted (snd (distribute d rt output tas rid_opt ic w))) =
     main_trace d output tas (effective_run_id rt rid_opt) ic (map snd (posted w))
       @ team_calls d tas @ dm_calls d output tas (leadership_users (config d))"
  by (simp add: distribute_posted)

lemma distribute_high_calls:
  assumes "\<not> isl (client d (map snd (posted w)) (header_call d output tas))"
  shows "calls_of HighItem
           (drop (length (posted w)) (posted (snd (distribute d rt output tas rid_opt ic w)))) =
         map (item_call (digest_channel (config d)))
           (fst (format_digest_items (formatter d) tas (effective_run_id rt rid_opt) ic))"
  using assms
  by (simp add: distribute_new_calls calls_of_append calls_of_team_calls calls_of_dm_calls
      main_trace_def Let_def calls_of_Cons calls_of_map calls_of_Nil)

lemma distribute_low_calls:
  assumes "\<not> isl (client d (map snd (posted w)) (header_call d output tas))"
    and "\<not> isl (client d (divider_history d output tas
                 (fst (format_digest_items (formatter d) tas (effective_run_id rt rid_opt) ic))
                 (map snd (posted w))) (divider_call d))"
  shows "calls_of LowItem
           (drop (length (posted w)) (posted (snd (distribute d rt output tas rid_opt ic w)))) =
         map (item_call (digest_channel (config d)))
           (fst (snd (format_digest_items (formatter d) tas (effective_run_id rt rid_opt) ic)))"
  using assms
  by (simp add: distribute_new_calls calls_of_append calls_of_team_calls calls_of_dm_calls
      main_trace_def Let_def calls_of_Cons calls_of_map calls_of_Nil divider_history_def)




lemma team_calls_origin: "\<forall>x\<in>set (team_calls d tas). fst x = TeamDetails"
  by (induction tas) (auto split: option.splits if_splits)

lemma dm_calls_origin: "\<forall>x\<in>set (dm_calls d output tas users). fst x = LeadershipDm"
  by (auto simp add: dm_calls_def)





section \<open>Claims on the distribution engine\<close>



text \<open>
  Claim C10. Without a feedback store \<open>distribute\<close> makes the same calls on the client
  as with one, hands no record to the store and returns \<open>items_stored = 0\<close>. For every
  distributor, \<open>items_stored\<close> counts the item posts of the result that report \<open>ok\<close>
  when a store is configured and is 0 otherwise; records reach the store only when a
  store is configured (and the feedback package is available), and each of them is the
  record of an item whose post returned a result reporting \<open>ok\<close>.
\<close>

theorem distribute_without_store:
  fixes d :: "('o, 'a) digest_distributor"
  shows
  "posted (snd (distribute (d\<lparr>feedback_store := False\<rparr>) rt output tas rid_opt ic w)) =
     posted (snd (distribute (d\<lparr>feedback_store := True\<rparr>) rt output tas rid_opt ic w))
   \<and> stored (snd (distribute (d\<lparr>feedback_store := False\<rparr>) rt output tas rid_opt ic w)) = stored w
   \<and> map_option items_stored
        (result_of (distribute (d\<lparr>feedback_store := False\<rparr>) rt output tas rid_opt ic w)) = Some 0
   \<and> (\<exists>r w' new. distribute d rt output tas rid_opt ic w = (Inr r, w')
         \<and> items_stored r = (if feedback_store d then length (ok_posts (item_posts r)) else 0)
         \<and> stored w' = stored w @ new
         \<and> (new \<noteq> [] \<longrightarrow> feedback_store d \<and> FEEDBACK_AVAILABLE rt)
         \<and> (\<forall>di\<in>set new. \<exists>m result h.
               m \<in> set (fst (format_digest_items (formatter d) tas
                                (effective_run_id rt rid_opt) ic) @
                        fst (snd (format_digest_items (formatter d) tas
                                (effective_run_id rt rid_opt) ic)))
               \<and> client d h (item_call (digest_channel (config d)) m) = Inr result
               \<and> res_ok result = Some True
               \<and> di = to_digest_item rt (effective_run_id rt rid_opt)
                        (digest_channel (config d)) m (ts_or_empty result)))"
proof -
  let ?users = "leadership_users (config d)"
  let ?m = "after_main d rt output tas rid_opt ic w"
  let ?s = "send_dms d output tas ?users (post_teams d tas ?m)"
  let ?new = "if feedback_store d \<and> FEEDBACK_AVAILABLE rt
              then main_records d rt output tas (effective_run_id rt rid_opt) ic
                     (map snd (posted w))
              else []"
  have same: "posted (snd (distribute (d\<lparr>feedback_store := False\<rparr>) rt output tas rid_opt ic w)) =
     posted (snd (distribute (d\<lparr>feedback_store := True\<rparr>) rt output tas rid_opt ic w))"
    by (simp add: distribute_posted main_trace_store_flag team_calls_store_flag
        dm_calls_store_flag)
  have none: "stored (snd (distribute (d\<lparr>feedback_store := False\<rparr>) rt output tas rid_opt ic w))
                = stored w"
    by (simp add: distribute_stored)
  have count: "items_stored (fst (send_dms d' output tas users (post_teams d' tas
                  (after_main d' rt output tas rid_opt ic w)))) =
               (if feedback_store d'
                then length (ok_posts (item_posts (fst (send_dms d' output tas users
                  (post_teams d' tas (after_main d' rt output tas rid_opt ic w))))))
                else 0)" for d' :: "('o, 'a) digest_distributor" and users
    using distribute_items_stored [of d' rt "output" tas rid_opt ic w]
    by (simp add: send_dms_frame_rw post_teams_frame_rw)
  have zero: "map_option items_stored
       (result_of (distribute (d\<lparr>feedback_store := False\<rparr>) rt output tas rid_opt ic w)) = Some 0"
    using count [of "d\<lparr>feedback_store := False\<rparr>"
                    "leadership_users (config (d\<lparr>feedback_store := False\<rparr>))"]
    by (simp add: distribute_steps result_of_def)
  have dist: "distribute d rt output tas rid_opt ic w = (Inr (fst ?s), snd ?s)"
    by (rule distribute_steps)
  have st: "stored (snd ?s) = stored w @ ?new"
    using distribute_stored [of d rt "output" tas rid_opt ic w] dist by simp
  have only: "?new \<noteq> [] \<longrightarrow> feedback_store d \<and> FEEDBACK_AVAILABLE rt"
    by simp
  have origin: "\<forall>di\<in>set ?new. \<exists>m result h.
               m \<in> set (fst (format_digest_items (formatter d) tas
                                (effective_run_id rt rid_opt) ic) @
                        fst (snd (format_digest_items (formatter d) tas
                                (effective_run_id rt rid_opt) ic)))
               \<and> client d h (item_call (digest_channel (config d)) m) = Inr result
               \<and> res_ok result = Some True
               \<and> di = to_digest_item rt (effective_run_id rt rid_opt)
                        (digest_channel (config d)) m (ts_or_empty result)"
    using main_records_origin [of _ d rt "output" tas "effective_run_id rt rid_opt" ic
                                  "map snd (posted w)"]
    by (simp split: if_splits)
  have "\<exists>r w' new. distribute d rt output tas rid_opt ic w = (Inr r, w')
         \<and> items_stored r = (if feedback_store d then length (ok_posts (item_posts r)) else 0)
         \<and> stored w' = stored w @ new
         \<and> (new \<noteq> [] \<longrightarrow> feedback_store d \<and> FEEDBACK_AVAILABLE rt)
         \<and> (\<forall>di\<in>set new. \<exists>m result h.
               m \<in> set (fst (format_digest_items (formatter d) tas
                                (effective_run_id rt rid_opt) ic) @
                        fst (snd (format_digest_items (formatter d) tas
                                (effective_run_id rt rid_opt) ic)))
               \<and> client d h (item_call (digest_channel (config d)) m) = Inr result
               \<and> res_ok result = Some True
               \<and> di = to_digest_item rt (effective_run_id rt rid_opt)
                        (digest_channel (config d)) m (ts_or_empty result))"
    using dist count [of d ?users] st only origin by blast
  with same none zero show ?thesis by blast
qed

text \<open>Witness for C10: scenario D with a store (four records, \<open>items_stored = 4\<close>) and
  without one.\<close>

theorem distribute_without_store_witness:
  "stored (snd (distribute (sample_distributor [PostMessage ''C0'' ''b'' (Some (JArr []))] True)
                  sample_runtime () scenario_d (Some ''run1'') None empty_world)) \<noteq> []
   \<and> feedback_store (sample_distributor [PostMessage ''C0'' ''b'' (Some (JArr []))] True)
   \<and> map_option items_stored (result_of
        (distribute (sample_distributor [PostMessage ''C0'' ''b'' (Some (JArr []))] True)
                  sample_runtime () scenario_d (Some ''run1'') None empty_world)) = Some 4
   \<and> map_option items_stored (result_of
        (distribute (sample_distributor [PostMessage ''C0'' ''b'' (Some (JArr []))] False)
                  sample_runtime () scenario_d (Some ''run1'') None empty_world)) = Some 0
   \<and> stored (snd (distribute (sample_distributor [PostMessage ''C0'' ''b'' (Some (JArr []))] False)
                  sample_runtime () scenario_d (Some ''run1'') None empty_world)) = []"
proof -
  let ?bad = "[PostMessage ''C0'' ''b'' (Some (JArr []))]"
  have flag: "(sample_distributor ?bad True)\<lparr>feedback_store := False\<rparr> = sample_distributor ?bad False"
    by (simp add: sample_distributor_def)
  note inst = distribute_without_store
          [of "sample_distributor ?bad True" sample_runtime "()" scenario_d "Some ''run1''"
              None empty_world, unfolded flag]
  have off: "stored (snd (distribute (sample_distributor ?bad False)
                  sample_runtime () scenario_d (Some ''run1'') None empty_world)) = []
     \<and> map_option items_stored (result_of
        (distribute (sample_distributor ?bad False)
                  sample_runtime () scenario_d (Some ''run1'') None empty_world)) = Some 0"
    using inst [THEN conjunct2, THEN conjunct1]
          inst [THEN conjunct2, THEN conjunct2, THEN conjunct1]
    by (simp add: empty_world_def)
  have on: "stored (snd (distribute (sample_distributor ?bad True)
                  sample_runtime () scenario_d (Some ''run1'') None empty_world)) \<noteq> []
     \<and> feedback_store (sample_distributor ?bad True)
     \<and> map_option items_stored (result_of
        (distribute (sample_distributor ?bad True)
                  sample_runtime () scenario_d (Some ''run1'') None empty_world)) = Some 4"
    by (simp add: sample_defs run_defs result_of_def)
  from on off show ?thesis by simp
qed

text \<open>
  Claim C9. \<open>preview\<close> returns its result in the world it was given: it makes no call on
  the client and hands nothing to the store. The buckets it reports are those of
  \<open>format_digest_items\<close> at the team analyses, the effective run identifier and the
  confidence overrides, and the item posts of \<open>distribute\<close> for the same arguments are
  the posts of these buckets: the high bucket when the header post returns, the low bucket
  when the divider post returns too.
\<close>

theorem preview_is_dry_run:
  fixes d :: "('o, 'a) digest_distributor"
  shows "\<exists>p. preview d rt output tas rid_opt ic w = (Inr p, w)
     \<and> pv_run_id p = effective_run_id rt rid_opt
     \<and> high_confidence_items p =
         map (\<lambda>m. (digest_item_id m, msg_text m, confidence m))
           (fst (format_digest_items (formatter d) tas (effective_run_id rt rid_opt) ic))
     \<and> low_confidence_items p =
         map (\<lambda>m. (digest_item_id m, msg_text m, confidence m))
           (fst (snd (format_digest_items (formatter d) tas (effective_run_id rt rid_opt) ic)))
     \<and> excluded_items p =
         snd (snd (format_digest_items (formatter d) tas (effective_run_id rt rid_opt) ic))
     \<and> (\<not> isl (client d (map snd (posted w)) (header_call d output tas)) \<longrightarrow>
          calls_of HighItem
            (drop (length (posted w)) (posted (snd (distribute d rt output tas rid_opt ic w)))) =
          map (item_call (digest_channel (config d)))
            (fst (format_digest_items (formatter d) tas (effective_run_id rt rid_opt) ic))
          \<and> (\<not> isl (client d (divider_history d output tas
                 (fst (format_digest_items (formatter d) tas (effective_run_id rt rid_opt) ic))
                 (map snd (posted w))) (divider_call d)) \<longrightarrow>
             calls_of LowItem
               (drop (length (posted w)) (posted (snd (distribute d rt output tas rid_opt ic w)))) =
             map (item_call (digest_channel (config d)))
               (fst (snd (format_digest_items (formatter d) tas
                            (effective_run_id rt rid_opt) ic)))))"
proof -
  have "\<exists>p. preview d rt output tas rid_opt ic w = (Inr p, w)
     \<and> pv_run_id p = effective_run_id rt rid_opt
     \<and> high_confidence_items p =
         map (\<lambda>m. (digest_item_id m, msg_text m, confidence m))
           (fst (format_digest_items (formatter d) tas (effective_run_id rt rid_opt) ic))
     \<and> low_confidence_items p =
         map (\<lambda>m. (digest_item_id m, msg_text m, confidence m))
           (fst (snd (format_digest_items (formatter d) tas (effective_run_id rt rid_opt) ic)))
     \<and> excluded_items p =
         snd (snd (format_digest_items (formatter d) tas (effective_run_id rt rid_opt) ic))"
    by (simp add: preview_def Let_def case_prod_beta)
  then show ?thesis
    using distribute_high_calls [of d w "output" tas rt rid_opt ic]
          distribute_low_calls [of d w "output" tas rt rid_opt ic]
    by blast
qed

text \<open>Witness for C9: scenario C with a client that answers every call.\<close>

theorem preview_is_dry_run_witness:
  "\<not> isl (client (sample_distributor [] True) (map snd (posted empty_world))
            (header_call (sample_distributor [] True) () scenario_c))
   \<and> snd (preview (sample_distributor [] True) sample_runtime () scenario_c (Some ''run1'')
            None empty_world) = empty_world
   \<and> map_option high_confidence_items
        (result_of (preview (sample_distributor [] True) sample_runtime () scenario_c
                      (Some ''run1'') None empty_world)) = Some [(''a'', ''a'', 9 / 10)]
   \<and> map_option low_confidence_items
        (result_of (preview (sample_distributor [] True) sample_runtime () scenario_c
                      (Some ''run1'') None empty_world)) = Some [(''b'', ''b'', 5 / 10)]
   \<and> calls_of HighItem
        (posted (snd (distribute (sample_distributor [] True) sample_runtime () scenario_c
                        (Some ''run1'') None empty_world)))
      = [PostMessage ''C0'' ''a'' (Some (JArr []))]
   \<and> calls_of LowItem
        (posted (snd (distribute (sample_distributor [] True) sample_runtime () scenario_c
                        (Some ''run1'') None empty_world)))
      = [PostMessage ''C0'' ''b'' (Some (JArr []))]"
proof -
  let ?d = "sample_distributor [] True"
  let ?F = "format_digest_items (formatter ?d) scenario_c
              (effective_run_id sample_runtime (Some ''run1'')) None"
  have hdr: "\<not> isl (client ?d (map snd (posted empty_world)) (header_call ?d () scenario_c))"
    by (simp add: sample_defs)
  have dvd: "\<not> isl (client ?d (divider_history ?d () scenario_c (fst ?F)
                        (map snd (posted empty_world))) (divider_call ?d))"
    by (simp add: sample_defs)
  have fmt: "?F = ([sample_item ''a'' (9 / 10)], [sample_item ''b'' (5 / 10)],
                   [sample_item ''c'' (1 / 10)])"
    by (simp add: sample_defs effective_run_id_def)
  have ch: "digest_channel (config ?d) = ''C0''"
    by (simp add: sample_defs)
  from preview_is_dry_run [of ?d sample_runtime "()" scenario_c "Some ''run1''" None empty_world]
       hdr dvd
  obtain p where p:
    "preview ?d sample_runtime () scenario_c (Some ''run1'') None empty_world = (Inr p, empty_world)"
    "high_confidence_items p = map (\<lambda>m. (digest_item_id m, msg_text m, confidence m)) (fst ?F)"
    "low_confidence_items p = map (\<lambda>m. (digest_item_id m, msg_text m, confidence m)) (fst (snd ?F))"
    "calls_of HighItem (drop (length (posted empty_world))
       (posted (snd (distribute ?d sample_runtime () scenario_c (Some ''run1'') None empty_world))))
     = map (item_call (digest_channel (config ?d))) (fst ?F)"
    "calls_of LowItem (drop (length (posted empty_world))
       (posted (snd (distribute ?d sample_runtime () scenario_c (Some ''run1'') None empty_world))))
     = map (item_call (digest_channel (config ?d))) (fst (snd ?F))"
    by blast
  from p(4,5) have tr:
    "calls_of HighItem
       (posted (snd (distribute ?d sample_runtime () scenario_c (Some ''run1'') None empty_world)))
     = [PostMessage ''C0'' ''a'' (Some (JArr []))]"
    "calls_of LowItem
       (posted (snd (distribute ?d sample_runtime () scenario_c (Some ''run1'') None empty_world)))
     = [PostMessage ''C0'' ''b'' (Some (JArr []))]"
    by (simp_all add: fmt ch item_call_def sample_item_def empty_world_def)
  from p(1,2,3) have pv:
    "snd (preview ?d sample_runtime () scenario_c (Some ''run1'') None empty_world) = empty_world"
    "map_option high_confidence_items
        (result_of (preview ?d sample_runtime () scenario_c (Some ''run1'') None empty_world))
      = Some [(''a'', ''a'', 9 / 10)]"
    "map_option low_confidence_items
        (result_of (preview ?d sample_runtime () scenario_c (Some ''run1'') None empty_world))
      = Some [(''b'', ''b'', 5 / 10)]"
    by (simp_all add: fmt result_of_def sample_item_def)
  from hdr pv tr show ?thesis by simp
qed







section \<open>Properties of the listener\<close>






lemmas listener_samples = sample_env_def sample_limiter_def signed_request_def
  request_without_timestamp_def request_with_text_timestamp_def tracked_item_def
  sample_state_def reaction_event_def

lemmas py_int_defs = py_int_def py_strip_def py_isspace_def py_digits_def is_digit_def
  digit_val_def

lemma handle_reaction_added_malformed:
  "(\<exists>e. handle_reaction_added env event st = (Inl e, st)) \<or>
   (\<exists>user_id reaction item channel_id message_ts.
      py_get event ''user'' (JStr []) = Inr user_id \<and>
      py_get event ''reaction'' (JStr []) = Inr reaction \<and>
      py_get event ''item'' (JObj []) = Inr item \<and>
      py_get item ''channel'' (JStr []) = Inr channel_id \<and>
      py_get item ''ts'' (JStr []) = Inr message_ts)"
proof (cases "py_get event ''user'' (JStr [])")
  case (Inl e)
  then show ?thesis by (simp add: handle_reaction_added_def)
next
  case user: (Inr user_id)
  show ?thesis
  proof (cases "py_get event ''reaction'' (JStr [])")
    case (Inl e)
    with user show ?thesis by (simp add: handle_reaction_added_def)
  next
    case reaction: (Inr reaction)
    show ?thesis
    proof (cases "py_get event ''item'' (JObj [])")
      case (Inl e)
      with user reaction show ?thesis by (simp add: handle_reaction_added_def)
    next
      case item: (Inr item)
      show ?thesis
      proof (cases "py_get item ''channel'' (JStr [])")
        case (Inl e)
        with user reaction item show ?thesis by (simp add: handle_reaction_added_def)
      next
        case channel: (Inr channel_id)
        show ?thesis
        proof (cases "py_get item ''ts'' (JStr [])")
          case (Inl e)
          with user reaction item channel show ?thesis by (simp add: handle_reaction_added_def)
        next
          case (Inr message_ts)
          with user reaction item channel show ?thesis by blast
        qed
      qed
    qed
  qed
qed

lemma handle_reaction_added_run:
  assumes "py_get event ''user'' (JStr []) = Inr user_id"
    and "py_get event ''reaction'' (JStr []) = Inr reaction"
    and "py_get event ''item'' (JObj []) = Inr item"
    and "py_get item ''channel'' (JStr []) = Inr channel_id"
    and "py_get item ''ts'' (JStr []) = Inr message_ts"
  shows "handle_reaction_added env event st =
     (case emoji_to_feedback_type env reaction of
        None \<Rightarrow> (Inr (), st\<lparr>calls := calls st @ [EmojiLookup reaction]\<rparr>)
      | Some ftype \<Rightarrow>
          if ftype = [] then (Inr (), st\<lparr>calls := calls st @ [EmojiLookup reaction]\<rparr>)
          else
            (case get_item_by_message_ts (db st) message_ts channel_id of
               None \<Rightarrow>
                 (Inr (), st\<lparr>calls := calls st @
                            [EmojiLookup reaction, ItemLookup message_ts channel_id]\<rparr>)
             | Some digest_item \<Rightarrow>
                 if \<not> fst (fst (check_rate_limit env (db st) (metrics st) user_id)) then
                   (Inr (), st\<lparr>metrics := snd (check_rate_limit env (db st) (metrics st) user_id),
                              calls := calls st @
                                [EmojiLookup reaction, ItemLookup message_ts channel_id,
                                 RateLimitCheck user_id]\<rparr>)
                 else if is_user_spamming (db st) user_id (di_digest_item_id digest_item) then
                   (Inr (), st\<lparr>metrics := snd (check_rate_limit env (db st) (metrics st) user_id),
                              calls := calls st @
                                [EmojiLookup reaction, ItemLookup message_ts channel_id,
                                 RateLimitCheck user_id,
                                 DuplicateCheck user_id (di_digest_item_id digest_item)]\<rparr>)
                 else
                   (Inr (), st\<lparr>metrics := snd (check_rate_limit env (db st) (metrics st) user_id),
                              calls := calls st @
                                [EmojiLookup reaction, ItemLookup message_ts channel_id,
                                 RateLimitCheck user_id,
                                 DuplicateCheck user_id (di_digest_item_id digest_item),
                                 StoreFeedback (new_feedback_event env user_id ftype digest_item)],
                              db := (db st)\<lparr>feedback_events := feedback_events (db st) @
                                 [(length (feedback_events (db st)) + 1,
                                   new_feedback_event env user_id ftype digest_item)]\<rparr>\<rparr>)))"
  using assms
  by (simp add: handle_reaction_added_def Let_def case_prod_beta store_feedback_def
      new_feedback_event_def split: option.splits)

lemmas store_defs = emoji_to_feedback_type_def get_item_by_message_ts_def
  is_user_spamming_def

lemma get_is_string:
  "(case m of Some v \<Rightarrow> v | None \<Rightarrow> JNull) = JStr s \<longleftrightarrow> m = Some (JStr s)"
  by (cases m) auto

lemma reaction_added_returns:
  assumes "item_is_object ev"
  shows "fst (handle_reaction_added env (JObj ev) st) = Inr ()"
proof -
  obtain item where i: "py_get (JObj ev) ''item'' (JObj []) = Inr (JObj item)"
    using assms by (auto simp add: item_is_object_def split: option.splits json.splits)
  have u: "py_get (JObj ev) ''user'' (JStr [])
             = Inr (case map_of ev ''user'' of Some v \<Rightarrow> v | None \<Rightarrow> JStr [])"
    by simp
  have r: "py_get (JObj ev) ''reaction'' (JStr [])
             = Inr (case map_of ev ''reaction'' of Some v \<Rightarrow> v | None \<Rightarrow> JStr [])"
    by simp
  have c: "py_get (JObj item) ''channel'' (JStr [])
             = Inr (case map_of item ''channel'' of Some v \<Rightarrow> v | None \<Rightarrow> JStr [])"
    by simp
  have t: "py_get (JObj item) ''ts'' (JStr [])
             = Inr (case map_of item ''ts'' of Some v \<Rightarrow> v | None \<Rightarrow> JStr [])"
    by simp
  show ?thesis
    by (simp add: handle_reaction_added_run [OF u r i c t] split: option.splits)
qed

lemma acknowledged_when_returned:
  assumes "fst h = Inr ()"
  shows "fst (case h of (Inl e, st') \<Rightarrow> (Inl e, st')
              | (Inr u, st') \<Rightarrow> (Inr (ok_body, 200), st')) = Inr (ok_body, 200)"
  using assms by (cases h) auto

lemma reaction_removed_returns: "fst (handle_reaction_removed env (JObj ev) st) = Inr ()"
  by (simp add: handle_reaction_removed_def)

lemma not_overflowing: "\<not> float_overflows 1700000000"
proof -
  have "(2::int) ^ 31 \<le> 2 ^ 970" by (rule power_increasing) simp_all
  moreover have "(2::int) ^ 1024 = 2 ^ 54 * 2 ^ 970" by (simp add: power_add [symmetric])
  ultimately show ?thesis by (simp add: float_overflows_def)
qed

lemma signed_request_verified:
  "verify_slack_request (sample_env ''s3cr3t'') (signed_request payload) = Inr True"
  by (simp add: verify_slack_request_def sample_env_def signed_request_def py_int_defs
      not_overflowing compare_digest_def hexdigest_def hex_digit_def is_ascii_def)

lemma forged_request_rejected:
  "verify_slack_request (sample_env ''s3cr3t'') forged_request = Inr False"
  by (simp add: verify_slack_request_def sample_env_def forged_request_def py_int_defs
      not_overflowing compare_digest_def hexdigest_def hex_digit_def is_ascii_def)

section \<open>Claims on the listener\<close>



text \<open>
  Claim C3 fails on the code: with a secret configured, a request with no timestamp header
  or with a timestamp that is not a number makes \<open>int(timestamp)\<close> raise \<open>ValueError\<close>.
  \<open>verify_slack_request\<close> raises instead of returning false, and \<open>handle_slack_event\<close>
  raises with it instead of answering 403.
\<close>

theorem verify_slack_request_raises:
  "verify_slack_request (sample_env ''s3cr3t'') request_without_timestamp
     = Inl (ValueError ''invalid literal for int() with base 10'')
   \<and> verify_slack_request (sample_env ''s3cr3t'') request_with_text_timestamp
     = Inl (ValueError ''invalid literal for int() with base 10'')
   \<and> handle_slack_event (sample_env ''s3cr3t'') request_without_timestamp sample_state
     = (Inl (ValueError ''invalid literal for int() with base 10''), sample_state)"
  by (simp add: verify_slack_request_def handle_slack_event_def sample_env_def
      request_without_timestamp_def request_with_text_timestamp_def py_int_defs)

text \<open>
  Claim C6. \<open>handle_reaction_removed\<close> leaves the feedback store and the metrics engine
  as they were: no feedback event and no digest item is created, deleted or changed. The
  only call it makes is the emoji lookup.
\<close>

theorem reaction_removed_frame:
  "db (snd (handle_reaction_removed env event st)) = db st
   \<and> metrics (snd (handle_reaction_removed env event st)) = metrics st
   \<and> (calls (snd (handle_reaction_removed env event st)) = calls st
      \<or> (\<exists>reaction. calls (snd (handle_reaction_removed env event st))
                        = calls st @ [EmojiLookup reaction]))"
  by (simp add: handle_reaction_removed_def split: sum.splits)

text \<open>
  Claim C4. The calls \<open>handle_reaction_added\<close> makes on the store and the metrics engine
  are an initial part of: emoji lookup, item lookup, rate-limit check, duplicate check,
  storage. Digest items are never touched. A run that stops before the fifth call leaves
  the store as it was; a run that makes the fifth call returns and has appended exactly
  one feedback event, created at the current time. For an event whose fields can be read,
  the handler returns without raising, and it makes the fifth call exactly when the
  reaction is mapped, the item is resolved, the rate limit allows the user and the pair
  of user and item has no feedback yet.
\<close>

theorem reaction_added_pipeline:
  "\<exists>steps. calls (snd (handle_reaction_added env event st)) = calls st @ steps
     \<and> map step_rank steps = [0..<length steps]
     \<and> length steps \<le> 5
     \<and> digest_items (db (snd (handle_reaction_added env event st))) = digest_items (db st)
     \<and> (length steps < 5 \<longrightarrow> db (snd (handle_reaction_added env event st)) = db st)
     \<and> (length steps = 5 \<longrightarrow>
           fst (handle_reaction_added env event st) = Inr ()
           \<and> (\<exists>ev. steps ! 4 = StoreFeedback ev \<and> created_at ev = now_isoformat env
                 \<and> feedback_events (db (snd (handle_reaction_added env event st)))
                     = feedback_events (db st) @ [(length (feedback_events (db st)) + 1, ev)]))
     \<and> (\<forall>user_id reaction item channel_id message_ts.
           py_get event ''user'' (JStr []) = Inr user_id \<and>
           py_get event ''reaction'' (JStr []) = Inr reaction \<and>
           py_get event ''item'' (JObj []) = Inr item \<and>
           py_get item ''channel'' (JStr []) = Inr channel_id \<and>
           py_get item ''ts'' (JStr []) = Inr message_ts \<longrightarrow>
           fst (handle_reaction_added env event st) = Inr ()
           \<and> (length steps = 5 \<longleftrightarrow> accepted env st user_id reaction channel_id message_ts))"
proof -
  let ?out = "handle_reaction_added env event st"
  let ?readable = "\<lambda>user_id reaction item channel_id message_ts.
           py_get event ''user'' (JStr []) = Inr user_id \<and>
           py_get event ''reaction'' (JStr []) = Inr reaction \<and>
           py_get event ''item'' (JObj []) = Inr item \<and>
           py_get item ''channel'' (JStr []) = Inr channel_id \<and>
           py_get item ''ts'' (JStr []) = Inr message_ts"
  show ?thesis
  proof (cases "\<exists>user_id reaction item channel_id message_ts.
                  ?readable user_id reaction item channel_id message_ts")
    case False
    with handle_reaction_added_malformed [of env event st]
    obtain e where "?out = (Inl e, st)" by blast
    then have "fst ?out = Inl e" "snd ?out = st" by simp_all
    with False show ?thesis
      by (intro exI [of _ "[]"]) (simp, blast)
  next
    case True
    then obtain user_id reaction item channel_id message_ts
      where u: "py_get event ''user'' (JStr []) = Inr user_id"
        and r: "py_get event ''reaction'' (JStr []) = Inr reaction"
        and i: "py_get event ''item'' (JObj []) = Inr item"
        and c: "py_get item ''channel'' (JStr []) = Inr channel_id"
        and t: "py_get item ''ts'' (JStr []) = Inr message_ts"
      by blast
    note run = handle_reaction_added_run [OF u r i c t, of env st]
    let ?rl = "check_rate_limit env (db st) (metrics st) user_id"
    consider
        (unmapped) "emoji_to_feedback_type env reaction = None \<or>
                    emoji_to_feedback_type env reaction = Some []"
      | (unresolved) ftype where "emoji_to_feedback_type env reaction = Some ftype" "ftype \<noteq> []"
          "get_item_by_message_ts (db st) message_ts channel_id = None"
      | (limited) ftype di where "emoji_to_feedback_type env reaction = Some ftype" "ftype \<noteq> []"
          "get_item_by_message_ts (db st) message_ts channel_id = Some di" "\<not> fst (fst ?rl)"
      | (duplicate) ftype di where "emoji_to_feedback_type env reaction = Some ftype" "ftype \<noteq> []"
          "get_item_by_message_ts (db st) message_ts channel_id = Some di" "fst (fst ?rl)"
          "is_user_spamming (db st) user_id (di_digest_item_id di)"
      | (stored) ftype di where "emoji_to_feedback_type env reaction = Some ftype" "ftype \<noteq> []"
          "get_item_by_message_ts (db st) message_ts channel_id = Some di" "fst (fst ?rl)"
          "\<not> is_user_spamming (db st) user_id (di_digest_item_id di)"
      by (cases "emoji_to_feedback_type env reaction";
          cases "get_item_by_message_ts (db st) message_ts channel_id"; blast)
    then show ?thesis
    proof cases
      case unmapped
      then have "?out = (Inr (), st\<lparr>calls := calls st @ [EmojiLookup reaction]\<rparr>)"
        using run by auto
      with unmapped u r i c t show ?thesis
        by (intro exI [of _ "[EmojiLookup reaction]"]) (auto simp add: accepted_def)
    next
      case unresolved
      then have "?out = (Inr (), st\<lparr>calls := calls st @
                   [EmojiLookup reaction, ItemLookup message_ts channel_id]\<rparr>)"
        using run by simp
      with unresolved u r i c t show ?thesis
        by (intro exI [of _ "[EmojiLookup reaction, ItemLookup message_ts channel_id]"])
           (auto simp add: accepted_def)
    next
      case limited
      then have "?out = (Inr (), st\<lparr>metrics := snd ?rl, calls := calls st @
                   [EmojiLookup reaction, ItemLookup message_ts channel_id,
                    RateLimitCheck user_id]\<rparr>)"
        using run by simp
      with limited u r i c t show ?thesis
        by (intro exI [of _ "[EmojiLookup reaction, ItemLookup message_ts channel_id,
                              RateLimitCheck user_id]"])
           (auto simp add: accepted_def)
    next
      case duplicate
      then have "?out = (Inr (), st\<lparr>metrics := snd ?rl, calls := calls st @
                   [EmojiLookup reaction, ItemLookup message_ts channel_id,
                    RateLimitCheck user_id,
                    DuplicateCheck user_id (di_digest_item_id di)]\<rparr>)"
        using run by simp
      with duplicate u r i c t show ?thesis
        by (intro exI [of _ "[EmojiLookup reaction, ItemLookup message_ts channel_id,
                              RateLimitCheck user_id,
                              DuplicateCheck user_id (di_digest_item_id di)]"])
           (auto simp add: accepted_def)
    next
      case stored
      then have "?out = (Inr (), st\<lparr>metrics := snd ?rl, calls := calls st @
                   [EmojiLookup reaction, ItemLookup message_ts channel_id,
                    RateLimitCheck user_id,
                    DuplicateCheck user_id (di_digest_item_id di),
                    StoreFeedback (new_feedback_event env user_id ftype di)],
                   db := (db st)\<lparr>feedback_events := feedback_events (db st) @
                      [(length (feedback_events (db st)) + 1,
                        new_feedback_event env user_id ftype di)]\<rparr>\<rparr>)"
        using run by simp
      with stored u r i c t show ?thesis
        by (intro exI [of _ "[EmojiLookup reaction, ItemLookup message_ts channel_id,
                              RateLimitCheck user_id,
                              DuplicateCheck user_id (di_digest_item_id di),
                              StoreFeedback (new_feedback_event env user_id ftype di)]"])
           (auto simp add: accepted_def new_feedback_event_def)
    qed
  qed
qed

text \<open>Witness for C4: a mapped reaction to a tracked message is stored, an unmapped one
  stops after the first call and leaves the store as it was.\<close>

theorem reaction_added_pipeline_witness:
  "accepted (sample_env ''s3cr3t'') sample_state (JStr ''U1'') (JStr ''white_check_mark'')
     (JStr ''C0'') (JStr ''1700000000.000100'')
   \<and> map step_rank (calls (snd (handle_reaction_added (sample_env ''s3cr3t'')
          (reaction_event ''reaction_added'' ''white_check_mark'') sample_state)))
      = [0, 1, 2, 3, 4]
   \<and> map fst (feedback_events (db (snd (handle_reaction_added (sample_env ''s3cr3t'')
          (reaction_event ''reaction_added'' ''white_check_mark'') sample_state)))) = [1]
   \<and> map (\<lambda>p. created_at (snd p)) (feedback_events (db (snd (handle_reaction_added
          (sample_env ''s3cr3t'') (reaction_event ''reaction_added'' ''white_check_mark'')
          sample_state)))) = [''2023-11-14T22:15:00'']
   \<and> db (snd (handle_reaction_added (sample_env ''s3cr3t'')
          (reaction_event ''reaction_added'' ''tada'') sample_state)) = db sample_state"
proof -
  let ?env = "sample_env ''s3cr3t''"
  let ?ev = "reaction_event ''reaction_added'' ''white_check_mark''"
  let ?item = "JObj [(''type'', JStr ''message''), (''channel'', JStr ''C0''),
                     (''ts'', JStr ''1700000000.000100'')]"
  let ?out = "handle_reaction_added ?env ?ev sample_state"
  have gets: "py_get ?ev ''user'' (JStr []) = Inr (JStr ''U1'') \<and>
              py_get ?ev ''reaction'' (JStr []) = Inr (JStr ''white_check_mark'') \<and>
              py_get ?ev ''item'' (JObj []) = Inr ?item \<and>
              py_get ?item ''channel'' (JStr []) = Inr (JStr ''C0'') \<and>
              py_get ?item ''ts'' (JStr []) = Inr (JStr ''1700000000.000100'')"
    by (simp add: reaction_event_def)
  have acc: "accepted ?env sample_state (JStr ''U1'') (JStr ''white_check_mark'')
               (JStr ''C0'') (JStr ''1700000000.000100'')"
    by (simp add: accepted_def store_defs listener_samples)
  have start: "calls sample_state = []" "feedback_events (db sample_state) = []"
    by (simp_all add: sample_state_def)
  from reaction_added_pipeline [of ?env ?ev sample_state] gets acc
  obtain steps ev where steps:
    "calls (snd ?out) = calls sample_state @ steps"
    "map step_rank steps = [0..<length steps]"
    "length steps = 5"
    "created_at ev = now_isoformat ?env"
    "feedback_events (db (snd ?out)) =
       feedback_events (db sample_state) @ [(length (feedback_events (db sample_state)) + 1, ev)]"
    by blast
  have "[0..<5] = [0, 1, 2, 3, 4]" by (simp add: upt_rec)
  with steps(1,2,3) start have order: "map step_rank (calls (snd ?out)) = [0, 1, 2, 3, 4]"
    by simp
  from steps(4,5) start have stored:
    "map fst (feedback_events (db (snd ?out))) = [1]"
    "map (\<lambda>p. created_at (snd p)) (feedback_events (db (snd ?out))) = [''2023-11-14T22:15:00'']"
    by (simp_all add: sample_env_def)
  let ?tada = "reaction_event ''reaction_added'' ''tada''"
  let ?out2 = "handle_reaction_added ?env ?tada sample_state"
  have one: "length (calls (snd ?out2)) = 1"
    by (simp add: handle_reaction_added_def store_defs listener_samples)
  from reaction_added_pipeline [of ?env ?tada sample_state]
  obtain steps2 where steps2: "calls (snd ?out2) = calls sample_state @ steps2"
    "length steps2 < 5 \<longrightarrow> db (snd ?out2) = db sample_state"
    by blast
  from steps2(1) one start have "length steps2 < 5" by simp
  with steps2(2) have dropped: "db (snd ?out2) = db sample_state"
    by blast
  from acc order stored dropped show ?thesis by simp
qed

text \<open>
  Claim C5, amended. When verification returns false the endpoint answers 403 and the
  state is as before. When it returns true and the payload is an object of type
  \<open>url_verification\<close>, the endpoint answers 200 with the payload's challenge, the state
  as before. Every other verified payload that is an object, whose \<open>event\<close> in an event
  callback is an object (or absent) and whose \<open>item\<close> in a \<open>reaction_added\<close> event is an
  object (or absent), is answered 200 with \<open>{"ok": true}\<close>, whatever the business rules
  decided.
\<close>

theorem handle_slack_event_responses:
  "(verify_slack_request env req = Inr False \<longrightarrow>
      handle_slack_event env req st
        = (Inr (JObj [(''error'', JStr ''Invalid signature'')], 403), st))
   \<and> (verify_slack_request env req = Inr True \<and> request_json req = Some (JObj kvs) \<longrightarrow>
        (map_of kvs ''type'' = Some (JStr ''url_verification'') \<longrightarrow>
           handle_slack_event env req st
             = (Inr (JObj [(''challenge'',
                           (case map_of kvs ''challenge'' of Some c \<Rightarrow> c | None \<Rightarrow> JNull))],
                     200), st))
        \<and> (map_of kvs ''type'' \<noteq> Some (JStr ''url_verification'') \<and> callback_shape kvs \<longrightarrow>
             fst (handle_slack_event env req st) = Inr (ok_body, 200)))"
proof -
  have rejected: "handle_slack_event env req st
        = (Inr (JObj [(''error'', JStr ''Invalid signature'')], 403), st)"
    if "verify_slack_request env req = Inr False"
    using that by (simp add: handle_slack_event_def)
  have challenge: "handle_slack_event env req st
             = (Inr (JObj [(''challenge'',
                           (case map_of kvs ''challenge'' of Some c \<Rightarrow> c | None \<Rightarrow> JNull))],
                     200), st)"
    if "verify_slack_request env req = Inr True" "request_json req = Some (JObj kvs)"
       "map_of kvs ''type'' = Some (JStr ''url_verification'')"
    using that by (simp add: handle_slack_event_def)
  have acknowledged: "fst (handle_slack_event env req st) = Inr (ok_body, 200)"
    if v: "verify_slack_request env req = Inr True"
      and j: "request_json req = Some (JObj kvs)"
      and ty: "map_of kvs ''type'' \<noteq> Some (JStr ''url_verification'')"
      and shape: "callback_shape kvs"
  proof (cases "map_of kvs ''type'' = Some (JStr ''event_callback'')")
    case False
    with v j ty show ?thesis
      by (simp add: handle_slack_event_def get_is_string)
  next
    case callback: True
    show ?thesis
    proof (cases "map_of kvs ''event''")
      case None
      have "fst (handle_reaction_added env (JObj []) st) = Inr ()"
        by (rule reaction_added_returns) (simp add: item_is_object_def)
      with None v j callback show ?thesis
        by (simp add: handle_slack_event_def acknowledged_when_returned)
    next
      case (Some event)
      with shape callback obtain ev where ev: "event = JObj ev"
        and item: "map_of ev ''type'' = Some (JStr ''reaction_added'') \<longrightarrow> item_is_object ev"
        by (auto simp add: callback_shape_def split: json.splits if_splits)
      show ?thesis
      proof (cases "map_of ev ''type'' = Some (JStr ''reaction_added'')")
        case True
        with item have "fst (handle_reaction_added env (JObj ev) st) = Inr ()"
          by (simp add: reaction_added_returns)
        with True Some ev v j callback show ?thesis
          by (simp add: handle_slack_event_def acknowledged_when_returned)
      next
        case False
        have "fst (handle_reaction_removed env (JObj ev) st) = Inr ()"
          by (rule reaction_removed_returns)
        with False Some ev v j callback show ?thesis
          by (simp add: handle_slack_event_def get_is_string acknowledged_when_returned)
      qed
    qed
  qed
  from rejected challenge acknowledged show ?thesis by blast
qed

text \<open>Witness for the amended C5: a forged request, a URL verification, and a reaction
  that the pipeline drops.\<close>

theorem handle_slack_event_responses_witness:
  "verify_slack_request (sample_env ''s3cr3t'') forged_request = Inr False
   \<and> handle_slack_event (sample_env ''s3cr3t'') forged_request sample_state
       = (Inr (JObj [(''error'', JStr ''Invalid signature'')], 403), sample_state)
   \<and> verify_slack_request (sample_env ''s3cr3t'')
        (signed_request (JObj [(''type'', JStr ''url_verification''),
                               (''challenge'', JStr ''abc'')])) = Inr True
   \<and> handle_slack_event (sample_env ''s3cr3t'')
        (signed_request (JObj [(''type'', JStr ''url_verification''),
                               (''challenge'', JStr ''abc'')])) sample_state
       = (Inr (JObj [(''challenge'', JStr ''abc'')], 200), sample_state)
   \<and> callback_shape [(''type'', JStr ''event_callback''),
                      (''event'', reaction_event ''reaction_added'' ''tada'')]
   \<and> fst (handle_slack_event (sample_env ''s3cr3t'')
        (signed_request (JObj [(''type'', JStr ''event_callback''),
                               (''event'', reaction_event ''reaction_added'' ''tada'')]))
        sample_state) = Inr (ok_body, 200)"
proof -
  let ?env = "sample_env ''s3cr3t''"
  let ?hello = "[(''type'', JStr ''url_verification''), (''challenge'', JStr ''abc'')]"
  let ?tada = "[(''type'', JStr ''event_callback''),
                (''event'', reaction_event ''reaction_added'' ''tada'')]"
  note forged = forged_request_rejected
  from handle_slack_event_responses [of ?env forged_request sample_state "[]"] forged
  have r403: "handle_slack_event ?env forged_request sample_state
       = (Inr (JObj [(''error'', JStr ''Invalid signature'')], 403), sample_state)"
    by blast
  have v1: "verify_slack_request ?env (signed_request (JObj ?hello)) = Inr True"
    by (rule signed_request_verified)
  have j1: "request_json (signed_request (JObj ?hello)) = Some (JObj ?hello)"
    by (simp add: signed_request_def)
  have t1: "map_of ?hello ''type'' = Some (JStr ''url_verification'')"
    by simp
  from handle_slack_event_responses [of ?env "signed_request (JObj ?hello)" sample_state ?hello]
       v1 j1 t1
  have "handle_slack_event ?env (signed_request (JObj ?hello)) sample_state
       = (Inr (JObj [(''challenge'',
                      (case map_of ?hello ''challenge'' of Some c \<Rightarrow> c | None \<Rightarrow> JNull))],
               200), sample_state)"
    by blast
  then have r200: "handle_slack_event ?env (signed_request (JObj ?hello)) sample_state
       = (Inr (JObj [(''challenge'', JStr ''abc'')], 200), sample_state)"
    by simp
  have v2: "verify_slack_request ?env (signed_request (JObj ?tada)) = Inr True"
    by (rule signed_request_verified)
  have j2: "request_json (signed_request (JObj ?tada)) = Some (JObj ?tada)"
    by (simp add: signed_request_def)
  have t2: "map_of ?tada ''type'' \<noteq> Some (JStr ''url_verification'')"
    by simp
  have shape: "callback_shape ?tada"
    by (simp add: callback_shape_def item_is_object_def reaction_event_def)
  from handle_slack_event_responses [of ?env "signed_request (JObj ?tada)" sample_state ?tada]
       v2 j2 t2 shape
  have ack: "fst (handle_slack_event ?env (signed_request (JObj ?tada)) sample_state)
               = Inr (ok_body, 200)"
    by blast
  from forged r403 v1 r200 shape ack show ?thesis by blast
qed

text \<open>
  Counterexample to C5 as stated: a verified event callback whose \<open>event\<close> is \<open>null\<close> is
  not answered 200: \<open>event.get\<close> raises \<open>AttributeError\<close>, which leaves the view. So does
  a verified payload that is an array, and a \<open>reaction_added\<close> event whose \<open>item\<close> is a
  string.
\<close>

theorem handle_slack_event_responses_counterexample:
  "verify_slack_request (sample_env ''s3cr3t'')
     (signed_request (JObj [(''type'', JStr ''event_callback''), (''event'', JNull)]))
     = Inr True
   \<and> handle_slack_event (sample_env ''s3cr3t'')
       (signed_request (JObj [(''type'', JStr ''event_callback''), (''event'', JNull)]))
       sample_state
     = (Inl (AttributeError ''object has no attribute get''), sample_state)
   \<and> handle_slack_event (sample_env ''s3cr3t'') (signed_request (JArr [])) sample_state
     = (Inl (AttributeError ''object has no attribute get''), sample_state)
   \<and> handle_slack_event (sample_env ''s3cr3t'')
       (signed_request (JObj [(''type'', JStr ''event_callback''),
          (''event'', JObj [(''type'', JStr ''reaction_added''), (''item'', JStr ''C0'')])]))
       sample_state
     = (Inl (AttributeError ''object has no attribute get''), sample_state)"
  by (simp add: signed_request_verified handle_slack_event_def)
     (simp add: signed_request_def handle_reaction_added_def)

end
